theory Spec2Isabelle
  imports Main "HOL-Library.Word"
begin

unbundle bit_operations_syntax

section \<open>Machine types and constants of riscv.c\<close>

type_synonym u8 = "8 word"
type_synonym u16 = "16 word"
type_synonym u32 = "32 word"
type_synonym u64 = "64 word"

text \<open>The field macros at the head of the file, on unsigned words of any width:
  \<^verbatim>\<open>get_field(reg, mask) = (reg & mask) / (mask & ~(mask << 1))\<close>.\<close>

definition get_field :: "'a::len word \<Rightarrow> 'a word \<Rightarrow> 'a word" where
  "get_field reg msk = (reg AND msk) div (msk AND NOT (push_bit 1 msk))"

definition set_field :: "'a::len word \<Rightarrow> 'a word \<Rightarrow> 'a word \<Rightarrow> 'a word" where
  "set_field reg msk val =
     (reg AND NOT msk) OR ((val * (msk AND NOT (push_bit 1 msk))) AND msk)"

definition DEBUG_ROM_START :: u32 where "DEBUG_ROM_START = 0x800"
definition DEBUG_ROM_RESUME :: u32 where "DEBUG_ROM_RESUME = DEBUG_ROM_START + 4"
definition DEBUG_RAM_START :: u32 where "DEBUG_RAM_START = 0x400"


definition DBUS_OP_START :: nat where "DBUS_OP_START = 0"
definition DBUS_OP_SIZE :: nat where "DBUS_OP_SIZE = 2"
definition DBUS_DATA_START :: nat where "DBUS_DATA_START = 2"
definition DBUS_DATA_SIZE :: nat where "DBUS_DATA_SIZE = 34"
definition DBUS_ADDRESS_START :: nat where "DBUS_ADDRESS_START = 36"

datatype dbus_op_t = DBUS_OP_NOP | DBUS_OP_READ | DBUS_OP_WRITE

text \<open>\<^verbatim>\<open>dbus_status_t\<close> is a C enum; \<^verbatim>\<open>dbus_scan\<close> also returns the error code of a
  failed queue run through it, so a status is an integer here.\<close>

definition DBUS_STATUS_SUCCESS :: int where "DBUS_STATUS_SUCCESS = 0"
definition DBUS_STATUS_FAILED :: int where "DBUS_STATUS_FAILED = 2"
definition DBUS_STATUS_BUSY :: int where "DBUS_STATUS_BUSY = 3"


datatype slot_t = SLOT0 | SLOT1 | SLOT_LAST

definition DMCONTROL :: u16 where "DMCONTROL = 0x10"
definition DMCONTROL_INTERRUPT :: u64 where "DMCONTROL_INTERRUPT = push_bit 33 1"
definition DMCONTROL_HALTNOT :: u64 where "DMCONTROL_HALTNOT = push_bit 32 1"


definition REG_XPR0 :: nat where "REG_XPR0 = 0"
definition REG_XPR31 :: nat where "REG_XPR31 = 31"
definition REG_PC :: nat where "REG_PC = 32"
definition REG_FPR0 :: nat where "REG_FPR0 = 33"
definition REG_FPR31 :: nat where "REG_FPR31 = 64"
definition REG_CSR0 :: nat where "REG_CSR0 = 65"
definition REG_CSR4095 :: nat where "REG_CSR4095 = 4160"
definition REG_PRIV :: nat where "REG_PRIV = 4161"

definition DRAM_CACHE_SIZE :: nat where "DRAM_CACHE_SIZE = 16"
definition CACHE_NO_READ :: u32 where "CACHE_NO_READ = 128"

text \<open>Return codes of the framework (\<^verbatim>\<open>log.h\<close>, \<^verbatim>\<open>target.h\<close>): only their being
  distinct from \<^verbatim>\<open>ERROR_OK\<close> matters below.\<close>

definition ERROR_OK :: int where "ERROR_OK = 0"
definition ERROR_FAIL :: int where "ERROR_FAIL = - 4"

text \<open>General purpose register numbers used by the injected snippets
  (\<^verbatim>\<open>opcodes.h\<close>); \<^verbatim>\<open>handle_halt_routine\<close> skips exactly the indices 8 and 9.\<close>

definition ZERO :: nat where "ZERO = 0"
definition S0 :: nat where "S0 = 8"
definition S1 :: nat where "S1 = 9"

section \<open>What the file takes from outside\<close>

text \<open>The instruction encoders of \<^verbatim>\<open>opcodes.h\<close> and the CSR numbers and bit masks of
  \<^verbatim>\<open>encoding.h\<close> are not part of the sources. They are parameters of the model:
  every statement below holds for all of them.\<close>

record headers =
  lw :: "nat \<Rightarrow> nat \<Rightarrow> u16 \<Rightarrow> u32"
  ld :: "nat \<Rightarrow> nat \<Rightarrow> u16 \<Rightarrow> u32"
  lh :: "nat \<Rightarrow> nat \<Rightarrow> u16 \<Rightarrow> u32"
  lb :: "nat \<Rightarrow> nat \<Rightarrow> u16 \<Rightarrow> u32"
  sw :: "nat \<Rightarrow> nat \<Rightarrow> u16 \<Rightarrow> u32"
  sd :: "nat \<Rightarrow> nat \<Rightarrow> u16 \<Rightarrow> u32"
  fsw :: "nat \<Rightarrow> nat \<Rightarrow> u16 \<Rightarrow> u32"
  flw :: "nat \<Rightarrow> nat \<Rightarrow> u16 \<Rightarrow> u32"
  jal :: "nat \<Rightarrow> u32 \<Rightarrow> u32"
  csrr :: "nat \<Rightarrow> u32 \<Rightarrow> u32"
  csrw :: "nat \<Rightarrow> u32 \<Rightarrow> u32"
  xori :: "nat \<Rightarrow> nat \<Rightarrow> u16 \<Rightarrow> u32"
  srli :: "nat \<Rightarrow> nat \<Rightarrow> u8 \<Rightarrow> u32"
  CSR_TSELECT :: u32
  CSR_TDATA1 :: u32
  CSR_TDATA2 :: u32
  CSR_DCSR :: u32
  CSR_DPC :: u32
  CSR_DSCRATCH :: u32
  CSR_MISA :: u32
  DCSR_CAUSE :: u64
  DCSR_PRV :: u64
  DCSR_CAUSE_SWBP :: u32
  DCSR_CAUSE_HWBP :: u32
  DCSR_CAUSE_DEBUGINT :: u32
  DCSR_CAUSE_STEP :: u32
  MCONTROL_TYPE :: "u8 \<Rightarrow> u64"
  MCONTROL_DMODE :: "u8 \<Rightarrow> u64"
  MCONTROL_ACTION :: u64
  MCONTROL_ACTION_DEBUG_MODE :: u64
  MCONTROL_MATCH :: u64
  MCONTROL_MATCH_EQUAL :: u64
  MCONTROL_M :: u64
  MCONTROL_H :: u64
  MCONTROL_S :: u64
  MCONTROL_U :: u64
  MCONTROL_EXECUTE :: u64
  MCONTROL_STORE :: u64
  MCONTROL_LOAD :: u64

text \<open>The hardware and the scan layer are an environment the driver only observes:
  \<^item> \<open>scan_in w n\<close> is the bit string shifted in by the \<open>n\<close>-th executed dbus scan
    (status in bits 0..1, data in bits 2..35, echoed address from bit 36 on);
  \<^item> \<open>queue_rc w n\<close> is what the \<open>n\<close>-th call of \<^verbatim>\<open>jtag_execute_queue\<close> returns;
  \<^item> \<open>clock w n\<close> is what the \<open>n\<close>-th call of \<^verbatim>\<open>time(NULL)\<close> returns;
  \<^item> \<open>dtminfo_in w n\<close> is the DTMINFO register, had the \<open>n\<close>-th executed queue been the
    one that reads it;
  \<^item> \<open>stack_junk w n\<close> is the content of the \<open>n\<close>-th local variable that is declared
    without an initialiser and may be read before it is assigned.
  Statements quantify over all environments.\<close>

record env = headers +
  scan_in :: "nat \<Rightarrow> u64"
  queue_rc :: "nat \<Rightarrow> int"
  clock :: "nat \<Rightarrow> int"
  dtminfo_in :: "nat \<Rightarrow> u32"
  stack_junk :: "nat \<Rightarrow> u64"

section \<open>Data model\<close>

record memory_cache_line =
  data :: u32
  valid :: bool
  dirty :: bool

record trigger =
  address :: u64
  length_t :: u32
  mask_t :: u64
  "value" :: u64
  read :: bool
  "write" :: bool
  execute :: bool
  unique_id :: int

datatype target_state =
  TARGET_UNKNOWN | TARGET_RUNNING | TARGET_HALTED | TARGET_RESET | TARGET_DEBUG_RUNNING

datatype target_debug_reason =
  DBG_REASON_DBGRQ | DBG_REASON_BREAKPOINT | DBG_REASON_WATCHPOINT
  | DBG_REASON_WPTANDBKPT | DBG_REASON_SINGLESTEP | DBG_REASON_NOTHALTED
  | DBG_REASON_UNDEFINED

text \<open>\<^verbatim>\<open>riscv_info_t\<close>. The C arrays are index functions; the code is modelled to touch
  them below their declared size only, and an access at or beyond it is a fault
  (see \<open>OutOfBounds\<close>). \<open>reg_value i\<close> is the first 64 bits of the value buffer of
  register \<open>i\<close> of \<^verbatim>\<open>reg_list\<close>.\<close>

record riscv_info_t =
  addrbits :: u8
  xlen :: u8
  dramsize :: u32
  dcsr :: u64
  dpc :: u64
  misa :: u64
  tselect :: u64
  tselect_dirty :: bool
  dram_cache :: "nat \<Rightarrow> memory_cache_line"
  reg_value :: "nat \<Rightarrow> u64"
  trigger_unique_id :: "nat \<Rightarrow> int"
  dbus_busy_delay :: u32
  interrupt_high_delay :: u32
  gpr_cache :: "nat \<Rightarrow> u64"
  need_strict_step :: bool

text \<open>The target with its \<^verbatim>\<open>arch_info\<close>, and the driver's position in the environment:
  how many scans, queue runs, clock readings and uninitialised locals it has consumed.\<close>

record target = riscv_info_t +
  state :: target_state
  debug_reason :: target_debug_reason
  reset_halt :: bool
  examined :: bool
  halted_events :: nat
  scan_pos :: nat
  exec_pos :: nat
  time_pos :: nat
  stack_pos :: nat

section \<open>Outcomes\<close>

text \<open>A call returns a value and the new target (\<open>Ret\<close>), or stops the process at a failed
  \<^verbatim>\<open>assert\<close> or at an array access out of bounds (\<open>Abort\<close>); a call that never returns
  has no outcome (\<open>None\<close>).\<close>

datatype fault = AssertFail | OutOfBounds

datatype 'a outcome = Ret 'a target | Abort fault target

fun out_state :: "'a outcome \<Rightarrow> target" where
  "out_state (Ret a s) = s"
| "out_state (Abort e s) = s"

definition bindO ::
  "'a outcome option \<Rightarrow> ('a \<Rightarrow> target \<Rightarrow> 'b outcome option) \<Rightarrow> 'b outcome option" where
  "bindO r k =
     (case r of None \<Rightarrow> None
      | Some (Abort e s) \<Rightarrow> Some (Abort e s)
      | Some (Ret a s) \<Rightarrow> k a s)"

definition ret :: "'a \<Rightarrow> target \<Rightarrow> 'a outcome option" where
  "ret a s = Some (Ret a s)"

definition abort :: "fault \<Rightarrow> target \<Rightarrow> 'a outcome option" where
  "abort e s = Some (Abort e s)"

lemma bindO_mono [partial_function_mono]:
  assumes mf: "mono_option B" and mg: "\<And>y s. mono_option (\<lambda>f. C y s f)"
  shows "mono_option (\<lambda>f. bindO (B f) (\<lambda>y s. C y s f))"
proof (rule monotoneI)
  fix f g :: "'a \<Rightarrow> 'b option"
  assume fg: "fun_ord option_ord f g"
  from mf fg have 1: "option_ord (B f) (B g)" by (rule monotoneD[of _ _ _ f g])
  from mg have 2: "\<And>y s. option_ord (C y s f) (C y s g)" by (rule monotoneD) (rule fg)
  show "option_ord (bindO (B f) (\<lambda>y s. C y s f)) (bindO (B g) (\<lambda>y s. C y s g))"
  proof (cases "B f")
    case None
    then show ?thesis by (simp add: bindO_def flat_ord_def)
  next
    case (Some r)
    with 1 have "B g = Some r" by (simp add: flat_ord_def)
    with Some 2 show ?thesis by (cases r) (simp_all add: bindO_def flat_ord_def)
  qed
qed

text \<open>A counted \<^verbatim>\<open>for\<close> loop over the given indices.\<close>

fun for_each ::
  "nat list \<Rightarrow> (nat \<Rightarrow> target \<Rightarrow> unit outcome option) \<Rightarrow> target \<Rightarrow> unit outcome option" where
  "for_each [] f s = ret () s"
| "for_each (i # is) f s = bindO (f i s) (\<lambda>_ s1. for_each is f s1)"

section \<open>The scan layer\<close>

text \<open>Modelled from the spec: \<^verbatim>\<open>buf_get_u32\<close>, \<^verbatim>\<open>buf_get_u64\<close>, \<^verbatim>\<open>buf_set_u32\<close> and
  \<^verbatim>\<open>buf_set_u64\<close> (the framework's bit buffer helpers) are not part of the sources.
  The spec has buffers as little-endian bit streams addressed at explicit bit offsets:
  a get reads \<open>num\<close> bits from bit \<open>first\<close>, a set replaces \<open>num\<close> bits from bit
  \<open>first\<close> by the low bits of the value. A buffer is its first 64 bits here.\<close>

definition buf_get_u64 :: "u64 \<Rightarrow> nat \<Rightarrow> nat \<Rightarrow> u64" where
  "buf_get_u64 buf first num = take_bit num (drop_bit first buf)"

definition buf_get_u32 :: "u64 \<Rightarrow> nat \<Rightarrow> nat \<Rightarrow> u32" where
  "buf_get_u32 buf first num = ucast (take_bit (min num 32) (drop_bit first buf))"

definition buf_set_u64 :: "u64 \<Rightarrow> nat \<Rightarrow> nat \<Rightarrow> u64 \<Rightarrow> u64" where
  "buf_set_u64 buf first num v =
     (buf AND NOT (push_bit first (mask num))) OR push_bit first (take_bit num v)"

definition buf_set_u32 :: "u64 \<Rightarrow> nat \<Rightarrow> nat \<Rightarrow> u32 \<Rightarrow> u64" where
  "buf_set_u32 buf first num v = buf_set_u64 buf first (min num 32) (ucast v)"

text \<open>\<^verbatim>\<open>jtag_execute_queue\<close> on a queue that holds \<open>n\<close> dbus scans: the return code comes
  from the environment; on success the scans have shifted in the next \<open>n\<close> bit strings.\<close>

definition jtag_execute_queue :: "env \<Rightarrow> nat \<Rightarrow> target \<Rightarrow> (int \<times> u64 list) \<times> target" where
  "jtag_execute_queue w n s =
     (let rc = queue_rc w (exec_pos s) in
      if rc = ERROR_OK
      then ((rc, map (\<lambda>i. scan_in w (scan_pos s + i)) [0..<n]),
            s\<lparr>exec_pos := exec_pos s + 1, scan_pos := scan_pos s + n\<rparr>)
      else ((rc, []), s\<lparr>exec_pos := exec_pos s + 1\<rparr>))"

text \<open>\<^verbatim>\<open>time(NULL)\<close>.\<close>

definition time_now :: "env \<Rightarrow> target \<Rightarrow> int \<times> target" where
  "time_now w s = (clock w (time_pos s), s\<lparr>time_pos := time_pos s + 1\<rparr>)"

text \<open>A local declared without initialiser.\<close>

definition uninitialised :: "env \<Rightarrow> target \<Rightarrow> u64 \<times> target" where
  "uninitialised w s = (stack_junk w (stack_pos s), s\<lparr>stack_pos := stack_pos s + 1\<rparr>)"

section \<open>Transport\<close>

text \<open>\<^verbatim>\<open>dbus_scan\<close>. The out parameters \<^verbatim>\<open>address_in\<close> and \<^verbatim>\<open>data_in\<close> are passed in and
  returned (\<open>None\<close> is the C \<^verbatim>\<open>NULL\<close>): a failed queue run returns before they are
  assigned, and its error code is returned as the status.\<close>

definition dbus_scan ::
  "env \<Rightarrow> u16 option \<Rightarrow> u64 option \<Rightarrow> dbus_op_t \<Rightarrow> u16 \<Rightarrow> u64 \<Rightarrow> target
     \<Rightarrow> (int \<times> u16 option \<times> u64 option) outcome option" where
  "dbus_scan w address_in data_in op address_out data_out s =
     (if addrbits s = 0 then abort AssertFail s
      else
        (case jtag_execute_queue w 1 s of
           ((retval, ins), s1) \<Rightarrow>
             if retval \<noteq> ERROR_OK then ret (retval, address_in, data_in) s1
             else
               (let inb = hd ins;
                    data_in' = map_option (\<lambda>_. buf_get_u64 inb DBUS_DATA_START DBUS_DATA_SIZE) data_in;
                    address_in' = map_option
                      (\<lambda>_. ucast (buf_get_u32 inb DBUS_ADDRESS_START (unat (addrbits s)))) address_in
                in ret (uint (buf_get_u32 inb DBUS_OP_START DBUS_OP_SIZE), address_in', data_in') s1)))"

text \<open>\<^verbatim>\<open>dbus_read\<close>: the inner loop repeats while the status is BUSY, the outer one while
  the echoed address is not the requested one; both repeat the same scan, so the two
  loops are one recursion. The locals \<^verbatim>\<open>value\<close> and \<^verbatim>\<open>address_in\<close> start uninitialised.\<close>

partial_function (option) dbus_read_loop ::
  "env \<Rightarrow> u16 \<Rightarrow> u16 \<Rightarrow> u64 \<Rightarrow> target \<Rightarrow> u64 outcome option" where
  "dbus_read_loop w addr address_in val s =
     bindO (dbus_scan w (Some address_in) (Some val) DBUS_OP_READ addr 0 s)
       (\<lambda>r s1. case r of (status, a, v) \<Rightarrow>
          if status = DBUS_STATUS_BUSY then dbus_read_loop w addr (the a) (the v) s1
          else if the a \<noteq> addr then dbus_read_loop w addr (the a) (the v) s1
          else ret (the v) s1)"

declare dbus_read_loop.simps [code]

definition dbus_read :: "env \<Rightarrow> u16 \<Rightarrow> target \<Rightarrow> u64 outcome option" where
  "dbus_read w addr s =
     (case uninitialised w s of (val, s1) \<Rightarrow>
      case uninitialised w s1 of (address_in, s2) \<Rightarrow>
        dbus_read_loop w addr (ucast address_in) val s2)"

text \<open>\<^verbatim>\<open>dbus_write\<close>: a status that is neither BUSY nor SUCCESS is logged only.\<close>

partial_function (option) dbus_write_loop ::
  "env \<Rightarrow> u16 \<Rightarrow> u64 \<Rightarrow> int \<Rightarrow> target \<Rightarrow> unit outcome option" where
  "dbus_write_loop w addr val status s =
     (if status = DBUS_STATUS_BUSY
      then bindO (dbus_scan w None None DBUS_OP_WRITE addr val s)
             (\<lambda>r s1. dbus_write_loop w addr val (fst r) s1)
      else ret () s)"

declare dbus_write_loop.simps [code]

definition dbus_write :: "env \<Rightarrow> u16 \<Rightarrow> u64 \<Rightarrow> target \<Rightarrow> unit outcome option" where
  "dbus_write w addr val s = dbus_write_loop w addr val DBUS_STATUS_BUSY s"


text \<open>\<^verbatim>\<open>dram_address\<close>, \<^verbatim>\<open>dram_read32\<close>, \<^verbatim>\<open>dram_write32\<close>.\<close>

definition dram_address :: "u32 \<Rightarrow> u16" where
  "dram_address index = (if index < 0x10 then ucast index else ucast (0x40 + index - 0x10))"

definition dram_read32 :: "env \<Rightarrow> u32 \<Rightarrow> target \<Rightarrow> u32 outcome option" where
  "dram_read32 w index s =
     bindO (dbus_read w (dram_address index) s) (\<lambda>v s1. ret (ucast v) s1)"

definition dram_write32 :: "env \<Rightarrow> u32 \<Rightarrow> u32 \<Rightarrow> bool \<Rightarrow> target \<Rightarrow> unit outcome option" where
  "dram_write32 w index val set_interrupt s =
     (let dbus_value = DMCONTROL_HALTNOT OR ucast val;
          dbus_value = (if set_interrupt then dbus_value OR DMCONTROL_INTERRUPT else dbus_value)
      in dbus_write w (dram_address index) dbus_value s)"

text \<open>\<^verbatim>\<open>read_bits\<close>: the same two nested loops as \<^verbatim>\<open>dbus_read\<close>, at address 0, with
  another test on the echoed address.\<close>

record bits_t =
  haltnot :: bool
  interrupt :: bool

partial_function (option) read_bits_loop ::
  "env \<Rightarrow> u16 \<Rightarrow> u64 \<Rightarrow> target \<Rightarrow> bits_t outcome option" where
  "read_bits_loop w address_in val s =
     bindO (dbus_scan w (Some address_in) (Some val) DBUS_OP_READ 0 0 s)
       (\<lambda>r s1. case r of (status, a, v) \<Rightarrow>
          if status = DBUS_STATUS_BUSY then read_bits_loop w (the a) (the v) s1
          else if the a > 0x10 \<and> the a \<noteq> DMCONTROL then read_bits_loop w (the a) (the v) s1
          else ret \<lparr>haltnot = (get_field (the v) DMCONTROL_HALTNOT \<noteq> 0),
                    interrupt = (get_field (the v) DMCONTROL_INTERRUPT \<noteq> 0)\<rparr> s1)"

declare read_bits_loop.simps [code]

definition read_bits :: "env \<Rightarrow> target \<Rightarrow> bits_t outcome option" where
  "read_bits w s =
     (case uninitialised w s of (val, s1) \<Rightarrow>
      case uninitialised w s1 of (address_in, s2) \<Rightarrow>
        read_bits_loop w (ucast address_in) val s2)"

text \<open>\<^verbatim>\<open>wait_for_debugint_clear\<close>: the clock is read once before the loop and once in each
  round in which the interrupt bit is still set.\<close>

partial_function (option) wait_for_debugint_clear_loop ::
  "env \<Rightarrow> int \<Rightarrow> target \<Rightarrow> int outcome option" where
  "wait_for_debugint_clear_loop w start s =
     bindO (read_bits w s)
       (\<lambda>bits s1.
          if \<not> interrupt bits then ret ERROR_OK s1
          else (case time_now w s1 of (t, s2) \<Rightarrow>
                  if t - start > 2 then ret ERROR_FAIL s2
                  else wait_for_debugint_clear_loop w start s2))"

declare wait_for_debugint_clear_loop.simps [code]

definition wait_for_debugint_clear :: "env \<Rightarrow> bool \<Rightarrow> target \<Rightarrow> int outcome option" where
  "wait_for_debugint_clear w ignore_first s =
     (case time_now w s of (start, s1) \<Rightarrow>
        bindO (if ignore_first then bindO (read_bits w s1) (\<lambda>_ s2. ret () s2) else ret () s1)
          (\<lambda>_ s2. wait_for_debugint_clear_loop w start s2))"

definition dram_check32 :: "env \<Rightarrow> u32 \<Rightarrow> u32 \<Rightarrow> target \<Rightarrow> int outcome option" where
  "dram_check32 w index expected s =
     bindO (dbus_read w (dram_address index) s)
       (\<lambda>v s1. if expected \<noteq> ucast v then ret ERROR_FAIL s1 else ret ERROR_OK s1)"

section \<open>Slots and snippet words\<close>

text \<open>\<^verbatim>\<open>load\<close>, \<^verbatim>\<open>store\<close> and \<^verbatim>\<open>slot_offset\<close> end in \<^verbatim>\<open>assert(0)\<close> for an \<open>xlen\<close> other
  than 32 and 64: \<open>None\<close>.\<close>

definition load :: "env \<Rightarrow> target \<Rightarrow> nat \<Rightarrow> nat \<Rightarrow> u16 \<Rightarrow> u32 option" where
  "load w s rd base offset =
     (if xlen s = 32 then Some (lw w rd base offset)
      else if xlen s = 64 then Some (ld w rd base offset)
      else None)"

definition store :: "env \<Rightarrow> target \<Rightarrow> nat \<Rightarrow> nat \<Rightarrow> u16 \<Rightarrow> u32 option" where
  "store w s src base offset =
     (if xlen s = 32 then Some (sw w src base offset)
      else if xlen s = 64 then Some (sd w src base offset)
      else None)"

definition slot_offset :: "target \<Rightarrow> slot_t \<Rightarrow> u32 option" where
  "slot_offset s slot =
     (if xlen s = 32 then
        (case slot of SLOT0 \<Rightarrow> Some 4 | SLOT1 \<Rightarrow> Some 5 | SLOT_LAST \<Rightarrow> Some (dramsize s - 1))
      else if xlen s = 64 then
        (case slot of SLOT0 \<Rightarrow> Some 4 | SLOT1 \<Rightarrow> Some 6 | SLOT_LAST \<Rightarrow> Some (dramsize s - 2))
      else None)"

definition load_slot :: "env \<Rightarrow> target \<Rightarrow> nat \<Rightarrow> slot_t \<Rightarrow> u32 option" where
  "load_slot w s dest slot =
     (case slot_offset s slot of None \<Rightarrow> None
      | Some so \<Rightarrow> load w s dest ZERO (ucast (DEBUG_RAM_START + 4 * so)))"

definition store_slot :: "env \<Rightarrow> target \<Rightarrow> nat \<Rightarrow> slot_t \<Rightarrow> u32 option" where
  "store_slot w s src slot =
     (case slot_offset s slot of None \<Rightarrow> None
      | Some so \<Rightarrow> store w s src ZERO (ucast (DEBUG_RAM_START + 4 * so)))"

definition increase_dbus_busy_delay :: "target \<Rightarrow> target" where
  "increase_dbus_busy_delay s = s\<lparr>dbus_busy_delay := dbus_busy_delay s + 1\<rparr>"

definition increase_interrupt_high_delay :: "target \<Rightarrow> target" where
  "increase_interrupt_high_delay s = s\<lparr>interrupt_high_delay := interrupt_high_delay s + 1\<rparr>"

section \<open>The scans class\<close>

text \<open>A batch of dbus scans. \<open>out\<close> is what \<^verbatim>\<open>add_dbus_scan\<close> has queued: operation,
  address, data and the idle cycles after the scan; \<open>inp\<close> is what the executed scans
  shifted in. The byte layout (\<^verbatim>\<open>scan_size\<close>) is not modelled: each scan has a buffer
  of its own.\<close>

record dbus_out =
  op :: dbus_op_t
  out_address :: u16
  out_data :: u64
  idle_count :: u32

record scans_t =
  scan_count :: nat
  next_scan :: nat
  out :: "dbus_out list"
  inp :: "u64 list"

definition scans_new :: "nat \<Rightarrow> scans_t" where
  "scans_new n = \<lparr>scan_count = n, next_scan = 0, out = [], inp = []\<rparr>"

definition scans_reset :: "scans_t \<Rightarrow> scans_t" where
  "scans_reset scans = scans\<lparr>next_scan := 0, out := []\<rparr>"

definition add_dbus_scan :: "target \<Rightarrow> dbus_op_t \<Rightarrow> u16 \<Rightarrow> u64 \<Rightarrow> dbus_out" where
  "add_dbus_scan s opc addr d =
     (let idle = 1 + dbus_busy_delay s;
          idle = (if d AND DMCONTROL_INTERRUPT \<noteq> 0 then idle + interrupt_high_delay s else idle)
      in \<lparr>op = opc, out_address = addr, out_data = d, idle_count = idle\<rparr>)"

text \<open>The two adders differ in their assertion: \<^verbatim>\<open>next_scan <= scan_count\<close> after a
  write, \<^verbatim>\<open>next_scan < scan_count\<close> after a read. \<open>None\<close> is the failed assertion.\<close>

definition scans_add_write32 ::
  "target \<Rightarrow> scans_t \<Rightarrow> u16 \<Rightarrow> u32 \<Rightarrow> bool \<Rightarrow> scans_t option" where
  "scans_add_write32 s scans addr d set_interrupt =
     (let scans' = scans\<lparr>out := out scans @
            [add_dbus_scan s DBUS_OP_WRITE addr
               ((if set_interrupt then DMCONTROL_INTERRUPT else 0) OR DMCONTROL_HALTNOT OR ucast d)],
            next_scan := next_scan scans + 1\<rparr>
      in if next_scan scans' \<le> scan_count scans' then Some scans' else None)"

definition scans_add_read32 :: "target \<Rightarrow> scans_t \<Rightarrow> u16 \<Rightarrow> bool \<Rightarrow> scans_t option" where
  "scans_add_read32 s scans addr set_interrupt =
     (let scans' = scans\<lparr>out := out scans @
            [add_dbus_scan s DBUS_OP_READ addr
               ((if set_interrupt then DMCONTROL_INTERRUPT else 0) OR DMCONTROL_HALTNOT)],
            next_scan := next_scan scans + 1\<rparr>
      in if next_scan scans' < scan_count scans' then Some scans' else None)"

definition scans_get_u32 :: "scans_t \<Rightarrow> nat \<Rightarrow> nat \<Rightarrow> nat \<Rightarrow> u32" where
  "scans_get_u32 scans index first num = buf_get_u32 (inp scans ! index) first num"


text \<open>Running the queued batch: on success the input buffers of the \<open>next_scan\<close> queued
  scans are filled.\<close>

definition scans_execute :: "env \<Rightarrow> scans_t \<Rightarrow> target \<Rightarrow> (int \<times> scans_t) \<times> target" where
  "scans_execute w scans s =
     (case jtag_execute_queue w (next_scan scans) s of
        ((retval, ins), s1) \<Rightarrow>
          ((retval, if retval = ERROR_OK then scans\<lparr>inp := ins\<rparr> else scans), s1))"

text \<open>Lifting a failed assertion of a pure helper to an outcome.\<close>

definition assert_some :: "'a option \<Rightarrow> target \<Rightarrow> 'a outcome option" where
  "assert_some x s = (case x of None \<Rightarrow> abort AssertFail s | Some a \<Rightarrow> ret a s)"

section \<open>The Debug RAM cache\<close>

definition cache_set32 :: "u32 \<Rightarrow> u32 \<Rightarrow> target \<Rightarrow> unit outcome option" where
  "cache_set32 index d s =
     (if unat index < DRAM_CACHE_SIZE
      then ret () (s\<lparr>dram_cache := (dram_cache s)
                      (unat index := \<lparr>data = d, valid = True, dirty = True\<rparr>)\<rparr>)
      else abort OutOfBounds s)"

definition cache_set :: "slot_t \<Rightarrow> u64 \<Rightarrow> target \<Rightarrow> unit outcome option" where
  "cache_set slot d s =
     bindO (assert_some (slot_offset s slot) s)
       (\<lambda>offset s1. bindO (cache_set32 offset (ucast d) s1)
          (\<lambda>_ s2. if xlen s2 > 32 then cache_set32 (offset + 1) (ucast (drop_bit 32 d)) s2
                   else ret () s2))"

definition cache_set_jump :: "env \<Rightarrow> u32 \<Rightarrow> target \<Rightarrow> unit outcome option" where
  "cache_set_jump w index s =
     cache_set32 index (jal w 0 (DEBUG_ROM_RESUME - (DEBUG_RAM_START + 4 * index))) s"

definition cache_set_load :: "env \<Rightarrow> u32 \<Rightarrow> nat \<Rightarrow> slot_t \<Rightarrow> target \<Rightarrow> unit outcome option" where
  "cache_set_load w index reg slot s =
     bindO (assert_some (load_slot w s reg slot) s) (\<lambda>insn s1. cache_set32 index insn s1)"

definition cache_set_store :: "env \<Rightarrow> u32 \<Rightarrow> nat \<Rightarrow> slot_t \<Rightarrow> target \<Rightarrow> unit outcome option" where
  "cache_set_store w index reg slot s =
     bindO (assert_some (store_slot w s reg slot) s) (\<lambda>insn s1. cache_set32 index insn s1)"

definition dump_debug_ram :: "env \<Rightarrow> target \<Rightarrow> unit outcome option" where
  "dump_debug_ram w s =
     for_each [0..<16] (\<lambda>i s1. bindO (dram_read32 w (of_nat i) s1) (\<lambda>_ s2. ret () s2)) s"

definition cache_invalidate :: "target \<Rightarrow> target" where
  "cache_invalidate s =
     s\<lparr>dram_cache := (\<lambda>i. if i < DRAM_CACHE_SIZE
                            then (dram_cache s i)\<lparr>valid := False, dirty := False\<rparr>
                            else dram_cache s i)\<rparr>"

definition cache_clean :: "target \<Rightarrow> target" where
  "cache_clean s =
     s\<lparr>dram_cache := (\<lambda>i. if i < DRAM_CACHE_SIZE
                            then (if i \<ge> 4 then (dram_cache s i)\<lparr>valid := False\<rparr>
                                  else dram_cache s i)\<lparr>dirty := False\<rparr>
                            else dram_cache s i)\<rparr>"



text \<open>\<^verbatim>\<open>cache_write\<close>. The status loop over the harvested scans either returns
  \<^verbatim>\<open>ERROR_FAIL\<close> at the first FAILED or invalid status (\<open>None\<close>) or counts the BUSY ones.\<close>

fun cache_write_status :: "u32 list \<Rightarrow> nat \<Rightarrow> nat option" where
  "cache_write_status [] errors = Some errors"
| "cache_write_status (status # rest) errors =
     (if uint status = DBUS_STATUS_SUCCESS then cache_write_status rest errors
      else if uint status = DBUS_STATUS_FAILED then None
      else if uint status = DBUS_STATUS_BUSY then cache_write_status rest (errors + 1)
      else None)"

fun scans_add_writes :: "target \<Rightarrow> nat list \<Rightarrow> nat \<Rightarrow> bool \<Rightarrow> scans_t \<Rightarrow> scans_t option" where
  "scans_add_writes s [] lst run scans = Some scans"
| "scans_add_writes s (i # is) lst run scans =
     (if dirty (dram_cache s i)
      then (case scans_add_write32 s scans (of_nat i) (data (dram_cache s i)) (i = lst \<and> run) of
              None \<Rightarrow> None
            | Some scans' \<Rightarrow> scans_add_writes s is lst run scans')
      else scans_add_writes s is lst run scans)"

definition cache_write_slow_step ::
  "env \<Rightarrow> nat \<Rightarrow> bool \<Rightarrow> nat \<Rightarrow> target \<Rightarrow> unit outcome option" where
  "cache_write_slow_step w lst run i s =
     bindO (if i = lst \<and> run
            then dram_write32 w (of_nat lst) (data (dram_cache s lst)) True s
            else dram_write32 w (of_nat i) (data (dram_cache s i)) False s)
       (\<lambda>_ s1. ret () (s1\<lparr>dram_cache := (dram_cache s1)(i := (dram_cache s1 i)\<lparr>dirty := False\<rparr>)\<rparr>))"

text \<open>The parts of \<^verbatim>\<open>cache_write\<close>, in the order of the source. First the batch is
  queued: when no line is dirty, the interrupt is set by a \<^verbatim>\<open>dbus_write\<close> of its own,
  else every dirty line is written, the last one with the interrupt bit when \<open>run\<close>;
  then come the two reads of \<open>addr\<close>.\<close>

definition cache_write_queue :: "env \<Rightarrow> u32 \<Rightarrow> bool \<Rightarrow> nat \<Rightarrow> target \<Rightarrow> scans_t outcome option" where
  "cache_write_queue w addr run lst s =
     bindO (if lst = DRAM_CACHE_SIZE
            then bindO (dbus_write w DMCONTROL (DMCONTROL_HALTNOT OR DMCONTROL_INTERRUPT) s)
                   (\<lambda>_ s1. ret (scans_new (DRAM_CACHE_SIZE + 2)) s1)
            else assert_some
                   (scans_add_writes s [0..<DRAM_CACHE_SIZE] lst run
                      (scans_new (DRAM_CACHE_SIZE + 2))) s)
     (\<lambda>scans s1.
        if run \<or> addr < CACHE_NO_READ
        then assert_some
               (case scans_add_read32 s1 scans (ucast addr) False of None \<Rightarrow> None
                | Some scans' \<Rightarrow> scans_add_read32 s1 scans' (ucast addr) False) s1
        else ret scans s1)"

text \<open>Both paths end by waiting for the debug interrupt to clear; a timeout dumps the
  Debug RAM and fails.\<close>

definition cache_write_wait :: "env \<Rightarrow> bool \<Rightarrow> target \<Rightarrow> int outcome option" where
  "cache_write_wait w ignore_first s =
     bindO (wait_for_debugint_clear w ignore_first s)
       (\<lambda>rc s1. if rc \<noteq> ERROR_OK
                 then bindO (dump_debug_ram w s1) (\<lambda>_ s2. ret ERROR_FAIL s2)
                 else ret ERROR_OK s1)"

text \<open>The slow path, taken when a status of the batch was BUSY.\<close>

definition cache_write_slow :: "env \<Rightarrow> nat \<Rightarrow> bool \<Rightarrow> target \<Rightarrow> int outcome option" where
  "cache_write_slow w lst run s =
     bindO (for_each [0..<DRAM_CACHE_SIZE] (cache_write_slow_step w lst run)
              (increase_dbus_busy_delay s))
       (\<lambda>_ s1. cache_write_wait w True (cache_clean s1))"

text \<open>The fast path, taken when no status of the batch was BUSY.\<close>

definition cache_write_fast :: "env \<Rightarrow> u32 \<Rightarrow> bool \<Rightarrow> scans_t \<Rightarrow> target \<Rightarrow> int outcome option" where
  "cache_write_fast w addr run scans s =
     (let s1 = cache_clean s in
      if run \<or> addr < CACHE_NO_READ then
        (if scans_get_u32 scans (next_scan scans - 1) (DBUS_DATA_START + 33) 1 \<noteq> 0
         then cache_write_wait w False (increase_interrupt_high_delay s1)
         else
           (let read_addr = unat (scans_get_u32 scans (next_scan scans - 1)
                                    DBUS_ADDRESS_START (unat (addrbits s1)))
            in if read_addr < DRAM_CACHE_SIZE
               then ret ERROR_OK
                 (s1\<lparr>dram_cache := (dram_cache s1)
                    (read_addr := (dram_cache s1 read_addr)
                       \<lparr>data := scans_get_u32 scans (next_scan scans - 1) DBUS_DATA_START 32,
                        valid := True\<rparr>)\<rparr>)
               else abort OutOfBounds s1))
      else ret ERROR_OK s1)"

definition cache_write :: "env \<Rightarrow> u32 \<Rightarrow> bool \<Rightarrow> target \<Rightarrow> int outcome option" where
  "cache_write w addr run s =
     (let dirty_lines = filter (\<lambda>i. dirty (dram_cache s i)) [0..<DRAM_CACHE_SIZE];
          lst = (if dirty_lines = [] then DRAM_CACHE_SIZE else last dirty_lines)
      in
      if \<exists>i\<in>set dirty_lines. \<not> i < unat (dramsize s) then abort AssertFail s
      else
        bindO (cache_write_queue w addr run lst s)
        (\<lambda>scans s1.
           case scans_execute w scans s1 of
             ((retval, scans), s2) \<Rightarrow>
               if retval \<noteq> ERROR_OK then ret retval s2
               else
                 (case cache_write_status
                         (map (\<lambda>i. scans_get_u32 scans i DBUS_OP_START DBUS_OP_SIZE)
                            [0..<next_scan scans]) 0 of
                    None \<Rightarrow> ret ERROR_FAIL s2
                  | Some errors \<Rightarrow>
                      if errors \<noteq> 0 then cache_write_slow w lst run s2
                      else cache_write_fast w addr run scans s2)))"

definition cache_get32 :: "env \<Rightarrow> u32 \<Rightarrow> target \<Rightarrow> u32 outcome option" where
  "cache_get32 w addr s =
     (if unat addr < DRAM_CACHE_SIZE then
        (if \<not> valid (dram_cache s (unat addr))
         then bindO (dram_read32 w addr s)
                (\<lambda>v s1. ret v (s1\<lparr>dram_cache := (dram_cache s1)
                     (unat addr := (dram_cache s1 (unat addr))\<lparr>data := v, valid := True\<rparr>)\<rparr>))
         else ret (data (dram_cache s (unat addr))) s)
      else abort OutOfBounds s)"

definition cache_get :: "env \<Rightarrow> slot_t \<Rightarrow> target \<Rightarrow> u64 outcome option" where
  "cache_get w slot s =
     bindO (assert_some (slot_offset s slot) s)
     (\<lambda>offset s1.
     bindO (cache_get32 w offset s1)
     (\<lambda>lo s2.
       if xlen s2 > 32
       then bindO (cache_get32 w (offset + 1) s2)
              (\<lambda>hi s3. ret (ucast lo OR push_bit 32 (ucast hi)) s3)
       else ret (ucast lo) s2))"

section \<open>CSR access and the tselect shadow\<close>

text \<open>\<^verbatim>\<open>read_csr\<close> writes through its out parameter on success only: the model takes the
  old content of that variable and returns the new one.\<close>

definition read_csr :: "env \<Rightarrow> u64 \<Rightarrow> u32 \<Rightarrow> target \<Rightarrow> (int \<times> u64) outcome option" where
  "read_csr w old csr s =
     bindO (cache_set32 0 (csrr w S0 csr) s)
     (\<lambda>_ s1. bindO (cache_set_store w 1 S0 SLOT0 s1)
     (\<lambda>_ s2. bindO (cache_set_jump w 2 s2)
     (\<lambda>_ s3. bindO (cache_write w 4 True s3)
     (\<lambda>rc s4.
        if rc \<noteq> ERROR_OK then ret (ERROR_FAIL, old) s4
        else bindO (cache_get w SLOT0 s4) (\<lambda>v s5. ret (ERROR_OK, v) s5)))))"

definition write_csr :: "env \<Rightarrow> u32 \<Rightarrow> u64 \<Rightarrow> target \<Rightarrow> int outcome option" where
  "write_csr w csr val s =
     bindO (cache_set_load w 0 S0 SLOT0 s)
     (\<lambda>_ s1. bindO (cache_set32 1 (csrw w S0 csr) s1)
     (\<lambda>_ s2. bindO (cache_set_jump w 2 s2)
     (\<lambda>_ s3. bindO (cache_set SLOT0 val s3)
     (\<lambda>_ s4. bindO (cache_write w 4 True s4)
     (\<lambda>rc s5. if rc \<noteq> ERROR_OK then ret ERROR_FAIL s5 else ret ERROR_OK s5)))))"

definition write_gpr :: "env \<Rightarrow> nat \<Rightarrow> u64 \<Rightarrow> target \<Rightarrow> int outcome option" where
  "write_gpr w gpr val s =
     bindO (cache_set_load w 0 gpr SLOT0 s)
     (\<lambda>_ s1. bindO (cache_set_jump w 1 s1)
     (\<lambda>_ s2. bindO (cache_set SLOT0 val s2)
     (\<lambda>_ s3. bindO (cache_write w 4 True s3)
     (\<lambda>rc s4. if rc \<noteq> ERROR_OK then ret ERROR_FAIL s4 else ret ERROR_OK s4))))"

definition maybe_read_tselect :: "env \<Rightarrow> target \<Rightarrow> int outcome option" where
  "maybe_read_tselect w s =
     (if tselect_dirty s then
        bindO (read_csr w (tselect s) (CSR_TSELECT w) s)
          (\<lambda>r s1. case r of (result, v) \<Rightarrow>
             (let s2 = s1\<lparr>tselect := v\<rparr> in
              if result \<noteq> ERROR_OK then ret result s2
              else ret ERROR_OK (s2\<lparr>tselect_dirty := False\<rparr>)))
      else ret ERROR_OK s)"

definition maybe_write_tselect :: "env \<Rightarrow> target \<Rightarrow> int outcome option" where
  "maybe_write_tselect w s =
     (if \<not> tselect_dirty s then
        bindO (write_csr w (CSR_TSELECT w) (tselect s) s)
          (\<lambda>result s1.
             if result \<noteq> ERROR_OK then ret result s1
             else ret ERROR_OK (s1\<lparr>tselect_dirty := True\<rparr>))
      else ret ERROR_OK s)"

section \<open>Halt handling and polling\<close>

text \<open>A batch is built by a sequence of adders; the first failed assertion ends it.\<close>

fun scans_seq :: "(scans_t \<Rightarrow> scans_t option) list \<Rightarrow> scans_t \<Rightarrow> scans_t option" where
  "scans_seq [] scans = Some scans"
| "scans_seq (f # fs) scans = (case f scans of None \<Rightarrow> None | Some scans' \<Rightarrow> scans_seq fs scans')"





















section \<open>Memory read\<close>

text \<open>The caller's buffer is a function from byte index to byte. One batch queues, for
  each \<open>j\<close> below \<open>batch_size\<close>: a read of word 4 when \<open>i + j = count\<close>, a read of the
  last Debug RAM word when \<open>i + j \<ge> count + 1\<close>, else a write of the next address to
  word 4 with the interrupt bit. All index arithmetic is 32-bit unsigned, as in the
  source.\<close>

definition read_memory_batch ::
  "target \<Rightarrow> u32 \<Rightarrow> u32 \<Rightarrow> u32 \<Rightarrow> u32 \<Rightarrow> nat \<Rightarrow> scans_t \<Rightarrow> scans_t option" where
  "read_memory_batch s addr sz count i batch_size scans =
     scans_seq
       (map (\<lambda>j scans.
               if i + of_nat j = count then scans_add_read32 s scans 4 False
               else if i + of_nat j \<ge> count + 1
               then scans_add_read32 s scans (ucast (dramsize s - 1)) False
               else scans_add_write32 s scans 4 (addr + sz * (i + of_nat j)) True)
          [0..<batch_size])
       (scans_reset scans)"

definition read_memory_store :: "u32 \<Rightarrow> u32 \<Rightarrow> u64 \<Rightarrow> (nat \<Rightarrow> u8) \<Rightarrow> (nat \<Rightarrow> u8)" where
  "read_memory_store sz offset d buffer =
     (if sz = 1 then buffer(unat offset := ucast d)
      else if sz = 2
      then buffer(unat offset := ucast d, unat (offset + 1) := ucast (drop_bit 8 d))
      else if sz = 4
      then buffer(unat offset := ucast d, unat (offset + 1) := ucast (drop_bit 8 d),
                  unat (offset + 2) := ucast (drop_bit 16 d),
                  unat (offset + 3) := ucast (drop_bit 24 d))
      else buffer)"

text \<open>The harvest of one batch. It ends after the last scan (\<open>RM_done\<close> with the two busy
  counts, the exception word and the buffer), by \<^verbatim>\<open>goto error\<close> at a FAILED status, or
  by \<^verbatim>\<open>return ERROR_FAIL\<close> at an invalid one; the buffer keeps what was stored until
  then.\<close>

datatype rm_end =
  RM_done nat nat u32 "nat \<Rightarrow> u8" | RM_error "nat \<Rightarrow> u8" | RM_invalid "nat \<Rightarrow> u8"

fun read_memory_harvest ::
  "u32 \<Rightarrow> u32 \<Rightarrow> u32 \<Rightarrow> (nat \<times> u64) list \<Rightarrow> nat \<Rightarrow> nat \<Rightarrow> u32 \<Rightarrow> (nat \<Rightarrow> u8) \<Rightarrow> rm_end" where
  "read_memory_harvest sz count i [] dbus_busy execute_busy result_value buffer =
     RM_done dbus_busy execute_busy result_value buffer"
| "read_memory_harvest sz count i ((j, inb) # rest) dbus_busy execute_busy result_value buffer =
     (let status = uint (buf_get_u32 inb DBUS_OP_START DBUS_OP_SIZE) in
      if status = DBUS_STATUS_FAILED then RM_error buffer
      else if status \<noteq> DBUS_STATUS_SUCCESS \<and> status \<noteq> DBUS_STATUS_BUSY then RM_invalid buffer
      else
        (let busy' = (if status = DBUS_STATUS_BUSY then dbus_busy + 1 else dbus_busy);
             d = buf_get_u64 inb DBUS_DATA_START DBUS_DATA_SIZE;
             exec' = (if d AND DMCONTROL_INTERRUPT \<noteq> 0 then execute_busy + 1 else execute_busy)
         in
         if i + of_nat j = count + 2
         then read_memory_harvest sz count i rest busy' exec' (ucast d) buffer
         else if i + of_nat j > 1
         then read_memory_harvest sz count i rest busy' exec' result_value
                (read_memory_store sz (sz * (i + of_nat j - 2)) d buffer)
         else read_memory_harvest sz count i rest busy' exec' result_value buffer))"

text \<open>The \<^verbatim>\<open>while (i < count + 3)\<close> loop, with what follows it. A batch in which a status
  was BUSY or an interrupt bit was set is run again after the wait, without advancing
  \<open>i\<close>.\<close>

partial_function (option) read_memory_loop ::
  "env \<Rightarrow> u32 \<Rightarrow> u32 \<Rightarrow> u32 \<Rightarrow> scans_t \<Rightarrow> u32 \<Rightarrow> u32 \<Rightarrow> (nat \<Rightarrow> u8) \<Rightarrow> target
     \<Rightarrow> (int \<times> (nat \<Rightarrow> u8)) outcome option" where
  "read_memory_loop w addr sz count scans i result_value buffer s =
     (if i < count + 3 then
        (let batch_size = min (unat (count + 3 - i)) 256 in
         case read_memory_batch s addr sz count i batch_size scans of
           None \<Rightarrow> abort AssertFail s
         | Some scans1 \<Rightarrow>
             (case scans_execute w scans1 s of
                ((retval, scans2), s1) \<Rightarrow>
                  if retval \<noteq> ERROR_OK then ret (ERROR_FAIL, buffer) (cache_clean s1)
                  else
                    (case read_memory_harvest sz count i
                            (zip [0..<batch_size] (inp scans2)) 0 0 result_value buffer of
                       RM_error buf \<Rightarrow> ret (ERROR_FAIL, buf) (cache_clean s1)
                     | RM_invalid buf \<Rightarrow> ret (ERROR_FAIL, buf) s1
                     | RM_done dbus_busy execute_busy rv buf \<Rightarrow>
                         (let s2 = (if dbus_busy \<noteq> 0 then increase_dbus_busy_delay s1 else s1);
                              s3 = (if execute_busy \<noteq> 0
                                    then increase_interrupt_high_delay s2 else s2)
                          in
                          if dbus_busy \<noteq> 0 \<or> execute_busy \<noteq> 0
                          then bindO (wait_for_debugint_clear w False s3)
                                 (\<lambda>_ s4. read_memory_loop w addr sz count scans2 i rv buf s4)
                          else read_memory_loop w addr sz count scans2
                                 (i + of_nat batch_size) rv buf s3))))
      else if result_value \<noteq> 0 then ret (ERROR_FAIL, buffer) (cache_clean s)
      else ret (ERROR_OK, buffer) (cache_clean s))"

declare read_memory_loop.simps [code]

definition riscv_read_memory ::
  "env \<Rightarrow> u32 \<Rightarrow> u32 \<Rightarrow> u32 \<Rightarrow> (nat \<Rightarrow> u8) \<Rightarrow> target \<Rightarrow> (int \<times> (nat \<Rightarrow> u8)) outcome option" where
  "riscv_read_memory w addr sz count buffer s =
     bindO (cache_set32 0 (lw w S0 ZERO (ucast (DEBUG_RAM_START + 16))) s)
     (\<lambda>_ s1.
        if sz = 1 \<or> sz = 2 \<or> sz = 4 then
          bindO (cache_set32 1 (if sz = 1 then lb w S1 S0 0
                                else if sz = 2 then lh w S1 S0 0 else lw w S1 S0 0) s1)
          (\<lambda>_ s2. bindO (cache_set32 2 (sw w S1 ZERO (ucast (DEBUG_RAM_START + 16))) s2)
          (\<lambda>_ s3. bindO (cache_set_jump w 3 s3)
          (\<lambda>_ s4. bindO (cache_write w CACHE_NO_READ False s4)
          (\<lambda>_ s5. read_memory_loop w addr sz count (scans_new 256) 0 0x777 buffer s5))))
        else ret (ERROR_FAIL, buffer) s1)"

section \<open>Register access\<close>

text \<open>\<^verbatim>\<open>register_get\<close> on the register with the given number; the result of
  \<^verbatim>\<open>maybe_write_tselect\<close> is ignored. The value buffer of a register is
  \<open>reg_value s number\<close>.\<close>

definition register_get_finish ::
  "env \<Rightarrow> nat \<Rightarrow> unit outcome option \<Rightarrow> int outcome option" where
  "register_get_finish w number staged =
     bindO staged
     (\<lambda>_ s1. bindO (cache_write w 4 True s1)
     (\<lambda>rc s2.
        if rc \<noteq> ERROR_OK then ret ERROR_FAIL s2
        else
          bindO (cache_get w SLOT0 s2)
          (\<lambda>v s3. bindO (cache_get32 w (dramsize s3 - 1) s3)
          (\<lambda>exception s4.
             if exception \<noteq> 0 then ret ERROR_FAIL s4
             else ret ERROR_OK (s4\<lparr>reg_value := (reg_value s4)
               (number := buf_set_u64 (reg_value s4 number) 0 (unat (xlen s4)) v)\<rparr>)))))"

definition register_get :: "env \<Rightarrow> nat \<Rightarrow> target \<Rightarrow> int outcome option" where
  "register_get w number s0 =
     bindO (maybe_write_tselect w s0)
     (\<lambda>_ s.
        if number \<le> REG_XPR31 then
          ret ERROR_OK (s\<lparr>reg_value := (reg_value s)
            (number := buf_set_u64 (reg_value s number) 0 (unat (xlen s)) (gpr_cache s number))\<rparr>)
        else if number = REG_PC then
          ret ERROR_OK (s\<lparr>reg_value := (reg_value s)
            (number := buf_set_u32 (reg_value s number) 0 32 (ucast (dpc s)))\<rparr>)
        else if REG_FPR0 \<le> number \<and> number \<le> REG_FPR31 then
          register_get_finish w number
            (bindO (cache_set32 0 (fsw w (number - REG_FPR0) 0 (ucast (DEBUG_RAM_START + 16))) s)
               (\<lambda>_ s1. cache_set_jump w 1 s1))
        else if REG_CSR0 \<le> number \<and> number \<le> REG_CSR4095 then
          register_get_finish w number
            (bindO (cache_set32 0 (csrr w S0 (of_nat (number - REG_CSR0))) s)
               (\<lambda>_ s1. bindO (cache_set_store w 1 S0 SLOT0 s1)
               (\<lambda>_ s2. cache_set_jump w 2 s2)))
        else if number = REG_PRIV then
          ret ERROR_OK (s\<lparr>reg_value := (reg_value s)
            (number := buf_set_u64 (reg_value s number) 0 8 (get_field (dcsr s) (DCSR_PRV w)))\<rparr>)
        else ret ERROR_FAIL s)"

text \<open>\<^verbatim>\<open>register_write\<close>: the branches that stage a snippet share the tail that puts the
  value in SLOT0 and runs the snippet; PC and PRIV only change the shadow.\<close>

definition register_write_finish ::
  "env \<Rightarrow> u64 \<Rightarrow> unit outcome option \<Rightarrow> int outcome option" where
  "register_write_finish w val staged =
     bindO staged
     (\<lambda>_ s1. bindO (cache_set SLOT0 val s1)
     (\<lambda>_ s2. bindO (cache_write w 4 True s2)
     (\<lambda>rc s3. if rc \<noteq> ERROR_OK then ret ERROR_FAIL s3 else ret ERROR_OK s3)))"

definition register_write :: "env \<Rightarrow> nat \<Rightarrow> u64 \<Rightarrow> target \<Rightarrow> int outcome option" where
  "register_write w number val s0 =
     bindO (maybe_write_tselect w s0)
     (\<lambda>_ s.
        if number = S0 then
          register_write_finish w val
            (bindO (cache_set_load w 0 S0 SLOT0 s)
               (\<lambda>_ s1. bindO (cache_set32 1 (csrw w S0 (CSR_DSCRATCH w)) s1)
               (\<lambda>_ s2. cache_set_jump w 2 s2)))
        else if number = S1 then
          register_write_finish w val
            (bindO (cache_set_load w 0 S0 SLOT0 s)
               (\<lambda>_ s1. bindO (cache_set_store w 1 S0 SLOT_LAST s1)
               (\<lambda>_ s2. cache_set_jump w 2 s2)))
        else if number \<le> REG_XPR31 then
          register_write_finish w val
            (bindO (cache_set_load w 0 (number - REG_XPR0) SLOT0 s)
               (\<lambda>_ s1. cache_set_jump w 1 s1))
        else if number = REG_PC then ret ERROR_OK (s\<lparr>dpc := val\<rparr>)
        else if REG_FPR0 \<le> number \<and> number \<le> REG_FPR31 then
          register_write_finish w val
            (bindO (cache_set32 0 (flw w (number - REG_FPR0) 0 (ucast (DEBUG_RAM_START + 16))) s)
               (\<lambda>_ s1. cache_set_jump w 1 s1))
        else if REG_CSR0 \<le> number \<and> number \<le> REG_CSR4095 then
          register_write_finish w val
            (bindO (cache_set_load w 0 S0 SLOT0 s)
               (\<lambda>_ s1. bindO (cache_set32 1 (csrw w S0 (of_nat (number - REG_CSR0))) s1)
               (\<lambda>_ s2. cache_set_jump w 2 s2)))
        else if number = REG_PRIV then
          ret ERROR_OK (s\<lparr>dcsr := set_field (dcsr s) (DCSR_PRV w) val\<rparr>)
        else ret ERROR_FAIL s)"


section \<open>Triggers\<close>






section \<open>Examine\<close>






section \<open>Observations used in the statements\<close>


definition scan_address :: "env \<Rightarrow> target \<Rightarrow> nat \<Rightarrow> u16" where
  "scan_address w s n =
     ucast (buf_get_u32 (scan_in w n) DBUS_ADDRESS_START (unat (addrbits s)))"


text \<open>What a call returned and the target it left, when it returned.\<close>

definition returned :: "'a outcome option \<Rightarrow> 'a option" where
  "returned r = (case r of Some (Ret a s) \<Rightarrow> Some a | _ \<Rightarrow> None)"

definition final :: "'a outcome option \<Rightarrow> target option" where
  "final r = (case r of Some (Ret a s) \<Rightarrow> Some s | _ \<Rightarrow> None)"

text \<open>A mock Debug Module: it answers the scans with the given bit strings, then with
  zeros (status SUCCESS, data 0, address 0); every queue run succeeds; the clock advances
  by one second per reading. The encoders of the mock are constant, the CSR numbers and
  masks are those of the debug specification the driver was written for.\<close>

definition pack_in :: "int \<Rightarrow> u64 \<Rightarrow> u16 \<Rightarrow> u64" where
  "pack_in status d a = word_of_int status OR push_bit 2 d OR push_bit 36 (ucast a)"

definition mock_dm :: "u64 list \<Rightarrow> env" where
  "mock_dm ins = \<lparr>lw = (\<lambda>_ _ _. 0), ld = (\<lambda>_ _ _. 0), lh = (\<lambda>_ _ _. 0), lb = (\<lambda>_ _ _. 0),
     sw = (\<lambda>_ _ _. 0), sd = (\<lambda>_ _ _. 0), fsw = (\<lambda>_ _ _. 0), flw = (\<lambda>_ _ _. 0),
     jal = (\<lambda>_ _. 0), csrr = (\<lambda>_ _. 0), csrw = (\<lambda>_ _. 0), xori = (\<lambda>_ _ _. 0),
     srli = (\<lambda>_ _ _. 0),
     CSR_TSELECT = 0x7a0, CSR_TDATA1 = 0x7a1, CSR_TDATA2 = 0x7a2, CSR_DCSR = 0x7b0,
     CSR_DPC = 0x7b1, CSR_DSCRATCH = 0x7b2, CSR_MISA = 0x301,
     DCSR_CAUSE = 0x1c0, DCSR_PRV = 3, DCSR_CAUSE_SWBP = 1, DCSR_CAUSE_HWBP = 2,
     DCSR_CAUSE_DEBUGINT = 3, DCSR_CAUSE_STEP = 4,
     MCONTROL_TYPE = (\<lambda>x. push_bit (unat x - 4) 0xf),
     MCONTROL_DMODE = (\<lambda>x. push_bit (unat x - 5) 1),
     MCONTROL_ACTION = 0x3f000, MCONTROL_ACTION_DEBUG_MODE = 1, MCONTROL_MATCH = 0x780,
     MCONTROL_MATCH_EQUAL = 0, MCONTROL_M = 0x40, MCONTROL_H = 0x20, MCONTROL_S = 0x10,
     MCONTROL_U = 8, MCONTROL_EXECUTE = 4, MCONTROL_STORE = 2, MCONTROL_LOAD = 1,
     scan_in = (\<lambda>n. if n < length ins then ins ! n else 0),
     queue_rc = (\<lambda>_. 0), clock = (\<lambda>n. int n), dtminfo_in = (\<lambda>_. 0x51),
     stack_junk = (\<lambda>_. 0)\<rparr>"

text \<open>An examined, halted 32-bit target with 16 words of Debug RAM, an empty cache and
  no trigger in use.\<close>

definition mock_target :: target where
  "mock_target = \<lparr>addrbits = 5, xlen = 32, dramsize = 16, dcsr = 0, dpc = 0, misa = 0,
     tselect = 0, tselect_dirty = False,
     dram_cache = (\<lambda>_. \<lparr>data = 0, valid = False, dirty = False\<rparr>),
     reg_value = (\<lambda>_. 0), trigger_unique_id = (\<lambda>_. - 1),
     dbus_busy_delay = 0, interrupt_high_delay = 0, gpr_cache = (\<lambda>_. 0),
     need_strict_step = False, state = TARGET_HALTED, debug_reason = DBG_REASON_DBGRQ,
     reset_halt = False, examined = True, halted_events = 0,
     scan_pos = 0, exec_pos = 0, time_pos = 0, stack_pos = 0\<rparr>"

text \<open>Frame conditions. \<open>holds R s0 r\<close>: whenever the call with result \<open>r\<close> stops, by
  returning or at a fault, the target it leaves is related to \<open>s0\<close>. A relation is
  \<open>cursor_free\<close> when it does not look at the position in the environment, and
  \<open>cache_free\<close> when it moreover does not look at the Debug RAM cache and the two
  delay counters.\<close>

definition holds :: "(target \<Rightarrow> target \<Rightarrow> bool) \<Rightarrow> target \<Rightarrow> 'a outcome option \<Rightarrow> bool" where
  "holds R s0 r \<longleftrightarrow> (\<forall>res. r = Some res \<longrightarrow> R s0 (out_state res))"

definition cursor_free :: "(target \<Rightarrow> target \<Rightarrow> bool) \<Rightarrow> bool" where
  "cursor_free R \<longleftrightarrow>
     (\<forall>s0 s g. R s0 (scan_pos_update g s) = R s0 s) \<and>
     (\<forall>s0 s g. R s0 (exec_pos_update g s) = R s0 s) \<and>
     (\<forall>s0 s g. R s0 (time_pos_update g s) = R s0 s) \<and>
     (\<forall>s0 s g. R s0 (stack_pos_update g s) = R s0 s)"

definition cache_free :: "(target \<Rightarrow> target \<Rightarrow> bool) \<Rightarrow> bool" where
  "cache_free R \<longleftrightarrow> cursor_free R \<and>
     (\<forall>s0 s g. R s0 (dram_cache_update g s) = R s0 s) \<and>
     (\<forall>s0 s g. R s0 (dbus_busy_delay_update g s) = R s0 s) \<and>
     (\<forall>s0 s g. R s0 (interrupt_high_delay_update g s) = R s0 s)"

text \<open>Keeping an observation of the target.\<close>

definition keeps :: "(target \<Rightarrow> 'b) \<Rightarrow> target \<Rightarrow> target \<Rightarrow> bool" where
  "keeps f s0 s \<longleftrightarrow> f s = f s0"

text \<open>One line of the cache of a target, and a mock target whose cache holds a dirty
  line 0 and a clean, valid line 5.\<close>

definition line_valid :: "nat \<Rightarrow> target \<Rightarrow> bool" where
  "line_valid i s = valid (dram_cache s i)"

definition line_dirty :: "nat \<Rightarrow> target \<Rightarrow> bool" where
  "line_dirty i s = dirty (dram_cache s i)"

definition mock_cached :: target where
  "mock_cached = mock_target\<lparr>dram_cache :=
     (\<lambda>i. if i = 0 then \<lparr>data = 1, valid = True, dirty = True\<rparr>
          else if i = 5 then \<lparr>data = 2, valid = True, dirty = False\<rparr>
          else \<lparr>data = 0, valid = False, dirty = False\<rparr>)\<rparr>"

text \<open>What the PC round trip looks at, and a halted 64-bit target whose \<open>tselect\<close>
  needs no restoring.\<close>

definition pc_view :: "target \<Rightarrow> u64 \<times> (nat \<Rightarrow> u64) \<times> u8" where
  "pc_view s = (dpc s, reg_value s, xlen s)"

definition mock_target64 :: target where
  "mock_target64 = mock_target\<lparr>xlen := 64, tselect_dirty := True\<rparr>"

text \<open>The return code and one byte of the buffer of a memory read that returned.\<close>

definition read_rc :: "(int \<times> (nat \<Rightarrow> u8)) outcome option \<Rightarrow> int option" where
  "read_rc r = map_option fst (returned r)"

definition read_byte :: "nat \<Rightarrow> (int \<times> (nat \<Rightarrow> u8)) outcome option \<Rightarrow> u8 option" where
  "read_byte k r = map_option (\<lambda>x. snd x k) (returned r)"
















section \<open>Proofs: transport\<close>










section \<open>Proofs: what the transport and the cache leave unchanged\<close>

lemma cursor_freeD:
  assumes "cursor_free R"
  shows "R s0 (scan_pos_update g s) = R s0 s" "R s0 (exec_pos_update g s) = R s0 s"
    "R s0 (time_pos_update g s) = R s0 s" "R s0 (stack_pos_update g s) = R s0 s"
  using assms by (simp_all add: cursor_free_def)

lemma cache_freeD:
  assumes "cache_free R"
  shows "cursor_free R" "R s0 (dram_cache_update g s) = R s0 s"
    "R s0 (dbus_busy_delay_update h s) = R s0 s"
    "R s0 (interrupt_high_delay_update h s) = R s0 s"
  using assms by (simp_all add: cache_free_def)

lemma holds_ret: "R s0 s \<Longrightarrow> holds R s0 (ret a s)"
  by (simp add: holds_def ret_def)

lemma holds_abort: "R s0 s \<Longrightarrow> holds R s0 (abort e s)"
  by (simp add: holds_def abort_def)

lemma holds_bindO:
  assumes "holds R s0 r" "\<And>a s1. R s0 s1 \<Longrightarrow> holds R s0 (k a s1)"
  shows "holds R s0 (bindO r k)"
  using assms by (auto simp: holds_def bindO_def split: option.splits outcome.splits)

lemma holds_assert_some: "R s0 s \<Longrightarrow> holds R s0 (assert_some x s)"
  by (simp add: assert_some_def holds_ret holds_abort split: option.splits)

lemma holds_for_each:
  assumes "\<And>i s. R s0 s \<Longrightarrow> holds R s0 (f i s)" "R s0 s"
  shows "holds R s0 (for_each is f s)"
  using assms(2)
proof (induction "is" arbitrary: s)
  case Nil
  then show ?case by (simp add: holds_ret)
next
  case (Cons i "is")
  show ?case by (simp) (intro holds_bindO assms(1) Cons)
qed

lemma holds_dbus_scan:
  assumes "cursor_free R" "R s0 s"
  shows "holds R s0 (dbus_scan w ai di opc ao d s)"
  using assms(2)
  by (auto simp: dbus_scan_def jtag_execute_queue_def Let_def cursor_freeD[OF assms(1)]
      intro!: holds_ret holds_abort)

lemma dbus_read_loop_holds:
  assumes "dbus_read_loop w addr a0 v0 s = Some res"
  shows "cursor_free R \<longrightarrow> R s0 s \<longrightarrow> R s0 (out_state res)"
  using assms
proof (induction rule: dbus_read_loop.raw_induct[rotated, consumes 1, case_names step])
  case (step loop w addr a0 v0 s res)
  show ?case
  proof (intro impI)
    assume cf: "cursor_free R" and R: "R s0 s"
    have "holds R s0 (bindO (dbus_scan w (Some a0) (Some v0) DBUS_OP_READ addr 0 s)
         (\<lambda>r s1. case r of (status, a, v) \<Rightarrow>
                  if status = DBUS_STATUS_BUSY then loop w addr (the a) (the v) s1
                  else if the a \<noteq> addr then loop w addr (the a) (the v) s1 else ret (the v) s1))"
      using step(1) cf
      by (intro holds_bindO holds_dbus_scan[OF cf R])
         (auto simp: holds_def ret_def split: prod.splits)
    with step(2) show "R s0 (out_state res)" by (simp add: holds_def)
  qed
qed

lemma holds_dbus_read:
  assumes "cursor_free R" "R s0 s"
  shows "holds R s0 (dbus_read w addr s)"
  using assms dbus_read_loop_holds[of w addr _ _ _ _ R s0]
  by (auto simp: holds_def dbus_read_def uninitialised_def cursor_freeD)


lemma dbus_write_loop_holds:
  assumes "dbus_write_loop w addr v st s = Some res"
  shows "cursor_free R \<longrightarrow> R s0 s \<longrightarrow> R s0 (out_state res)"
  using assms
proof (induction rule: dbus_write_loop.raw_induct[rotated, consumes 1, case_names step])
  case (step loop w addr v st s res)
  show ?case
  proof (intro impI)
    assume cf: "cursor_free R" and R: "R s0 s"
    have "holds R s0 (if st = DBUS_STATUS_BUSY
      then bindO (dbus_scan w None None DBUS_OP_WRITE addr v s) (\<lambda>r s1. loop w addr v (fst r) s1)
      else ret () s)"
    proof (cases "st = DBUS_STATUS_BUSY")
      case True
      have "holds R s0 (bindO (dbus_scan w None None DBUS_OP_WRITE addr v s)
               (\<lambda>r s1. loop w addr v (fst r) s1))"
        using step(1) cf
        by (intro holds_bindO holds_dbus_scan[OF cf R]) (auto simp: holds_def)
      with True show ?thesis by simp
    next
      case False
      then show ?thesis using R by (simp add: holds_ret)
    qed
    with step(2) show "R s0 (out_state res)" by (simp add: holds_def)
  qed
qed

lemma holds_dbus_write:
  assumes "cursor_free R" "R s0 s"
  shows "holds R s0 (dbus_write w addr v s)"
  using assms dbus_write_loop_holds[of w addr v _ s _ R s0]
  by (auto simp: holds_def dbus_write_def)

lemma read_bits_loop_holds:
  assumes "read_bits_loop w a0 v0 s = Some res"
  shows "cursor_free R \<longrightarrow> R s0 s \<longrightarrow> R s0 (out_state res)"
  using assms
proof (induction rule: read_bits_loop.raw_induct[rotated, consumes 1, case_names step])
  case (step loop w a0 v0 s res)
  show ?case
  proof (intro impI)
    assume cf: "cursor_free R" and R: "R s0 s"
    have "holds R s0 (bindO (dbus_scan w (Some a0) (Some v0) DBUS_OP_READ 0 0 s)
       (\<lambda>r s1. case r of (status, a, v) \<Rightarrow>
          if status = DBUS_STATUS_BUSY then loop w (the a) (the v) s1
          else if the a > 0x10 \<and> the a \<noteq> DMCONTROL then loop w (the a) (the v) s1
          else ret \<lparr>haltnot = (get_field (the v) DMCONTROL_HALTNOT \<noteq> 0),
                    interrupt = (get_field (the v) DMCONTROL_INTERRUPT \<noteq> 0)\<rparr> s1))"
      using step(1) cf
      by (intro holds_bindO holds_dbus_scan[OF cf R])
         (auto simp: holds_def ret_def split: prod.splits)
    with step(2) show "R s0 (out_state res)" by (simp add: holds_def)
  qed
qed

lemma holds_read_bits:
  assumes "cursor_free R" "R s0 s"
  shows "holds R s0 (read_bits w s)"
  using assms read_bits_loop_holds[of w _ _ _ _ R s0]
  by (auto simp: holds_def read_bits_def uninitialised_def cursor_freeD)

lemma wait_for_debugint_clear_loop_holds:
  assumes "wait_for_debugint_clear_loop w start s = Some res"
  shows "cursor_free R \<longrightarrow> R s0 s \<longrightarrow> R s0 (out_state res)"
  using assms
proof (induction rule: wait_for_debugint_clear_loop.raw_induct[rotated, consumes 1, case_names step])
  case (step loop w start s res)
  show ?case
  proof (intro impI)
    assume cf: "cursor_free R" and R: "R s0 s"
    have "holds R s0 (bindO (read_bits w s)
       (\<lambda>bits s1.
          if \<not> interrupt bits then ret ERROR_OK s1
          else (case time_now w s1 of (t, s2) \<Rightarrow>
                  if t - start > 2 then ret ERROR_FAIL s2
                  else loop w start s2)))"
      using step(1) cf
      by (intro holds_bindO holds_read_bits[OF cf R])
         (auto simp: holds_def ret_def time_now_def cursor_freeD split: prod.splits)
    with step(2) show "R s0 (out_state res)" by (simp add: holds_def)
  qed
qed

lemma holds_wait_for_debugint_clear:
  assumes cf: "cursor_free R" and R: "R s0 s"
  shows "holds R s0 (wait_for_debugint_clear w ignore_first s)"
proof -
  have l: "holds R s0 (wait_for_debugint_clear_loop w start s2)" if "R s0 s2" for start s2
    using wait_for_debugint_clear_loop_holds[of w start s2 _ R s0] cf that
    by (auto simp: holds_def)
  have R1: "R s0 (time_pos_update g s)" for g using R cf by (simp add: cursor_freeD)
  show ?thesis
    unfolding wait_for_debugint_clear_def time_now_def
    by (auto intro!: holds_bindO holds_ret holds_read_bits[OF cf] l R1)
qed

lemma holds_dram_read32:
  assumes "cursor_free R" "R s0 s"
  shows "holds R s0 (dram_read32 w index s)"
  unfolding dram_read32_def
  by (intro holds_bindO holds_dbus_read assms holds_ret)

lemma holds_dram_write32:
  assumes "cursor_free R" "R s0 s"
  shows "holds R s0 (dram_write32 w index v i s)"
  unfolding dram_write32_def Let_def
  by (intro holds_dbus_write assms)

lemma holds_dram_check32:
  assumes "cursor_free R" "R s0 s"
  shows "holds R s0 (dram_check32 w index v s)"
  unfolding dram_check32_def
  by (intro holds_bindO holds_dbus_read assms) (auto intro: holds_ret)

lemma holds_dump_debug_ram:
  assumes "cursor_free R" "R s0 s"
  shows "holds R s0 (dump_debug_ram w s)"
  unfolding dump_debug_ram_def
  by (intro holds_for_each holds_bindO holds_dram_read32 assms holds_ret)

lemma holds_cache_set32:
  assumes "cache_free R" "R s0 s"
  shows "holds R s0 (cache_set32 index d s)"
  using assms(2) unfolding cache_set32_def
  by (auto intro!: holds_ret holds_abort simp: cache_freeD[OF assms(1)])

lemma holds_cache_set:
  assumes "cache_free R" "R s0 s"
  shows "holds R s0 (cache_set slot d s)"
  unfolding cache_set_def
  by (intro holds_bindO holds_assert_some holds_cache_set32 assms)
     (auto intro!: holds_cache_set32 holds_ret assms)

lemma holds_cache_set_jump:
  assumes "cache_free R" "R s0 s"
  shows "holds R s0 (cache_set_jump w index s)"
  unfolding cache_set_jump_def by (intro holds_cache_set32 assms)

lemma holds_cache_set_load:
  assumes "cache_free R" "R s0 s"
  shows "holds R s0 (cache_set_load w index reg slot s)"
  unfolding cache_set_load_def
  by (intro holds_bindO holds_assert_some holds_cache_set32 assms)

lemma holds_cache_set_store:
  assumes "cache_free R" "R s0 s"
  shows "holds R s0 (cache_set_store w index reg slot s)"
  unfolding cache_set_store_def
  by (intro holds_bindO holds_assert_some holds_cache_set32 assms)

lemma cache_clean_free: "cache_free R \<Longrightarrow> R s0 (cache_clean s) = R s0 s"
  by (simp add: cache_clean_def cache_freeD)

lemma cache_invalidate_free: "cache_free R \<Longrightarrow> R s0 (cache_invalidate s) = R s0 s"
  by (simp add: cache_invalidate_def cache_freeD)

lemma increase_free:
  "cache_free R \<Longrightarrow> R s0 (increase_dbus_busy_delay s) = R s0 s"
  "cache_free R \<Longrightarrow> R s0 (increase_interrupt_high_delay s) = R s0 s"
  by (simp_all add: increase_dbus_busy_delay_def increase_interrupt_high_delay_def cache_freeD)

lemma holds_cache_write_slow_step:
  assumes "cache_free R" "R s0 s"
  shows "holds R s0 (cache_write_slow_step w lst run i s)"
  unfolding cache_write_slow_step_def
  by (intro holds_bindO)
     (auto intro!: holds_dram_write32 holds_ret assms cache_freeD(1)[OF assms(1)]
        simp: cache_freeD[OF assms(1)])

lemma holds_cache_write_queue:
  assumes cf: "cursor_free R" and R: "R s0 s"
  shows "holds R s0 (cache_write_queue w addr run lst s)"
  unfolding cache_write_queue_def
  by (intro holds_bindO)
     (auto intro!: holds_bindO holds_dbus_write holds_assert_some holds_ret cf R)

lemma holds_cache_write_wait:
  assumes cf: "cursor_free R" and R: "R s0 s"
  shows "holds R s0 (cache_write_wait w b s)"
  unfolding cache_write_wait_def
  by (intro holds_bindO holds_wait_for_debugint_clear cf R)
     (auto intro!: holds_bindO holds_dump_debug_ram holds_ret cf)

lemma holds_cache_write_slow:
  assumes cf: "cache_free R" and R: "R s0 s"
  shows "holds R s0 (cache_write_slow w lst run s)"
  unfolding cache_write_slow_def
  by (intro holds_bindO holds_for_each holds_cache_write_slow_step holds_cache_write_wait cf
        cache_freeD(1)[OF cf])
     (simp_all add: R increase_free[OF cf] cache_clean_free[OF cf])

lemma holds_cache_write_fast:
  assumes cf: "cache_free R" and R: "R s0 s"
  shows "holds R s0 (cache_write_fast w addr run scans s)"
  unfolding cache_write_fast_def Let_def
  by (auto intro!: holds_cache_write_wait holds_ret holds_abort cache_freeD(1)[OF cf]
      simp: R increase_free[OF cf] cache_clean_free[OF cf] cache_freeD[OF cf])

lemma holds_cache_write:
  assumes cf: "cache_free R" and R: "R s0 s"
  shows "holds R s0 (cache_write w addr run s)"
proof -
  note cu = cache_freeD(1)[OF cf]
  show ?thesis
    unfolding cache_write_def Let_def scans_execute_def jtag_execute_queue_def
    by (auto intro!: holds_bindO holds_abort holds_ret holds_cache_write_queue
          holds_cache_write_slow holds_cache_write_fast cf cu R
          simp: cursor_freeD[OF cu] split: option.splits)
qed

lemma holds_cache_get32:
  assumes cf: "cache_free R" and R: "R s0 s"
  shows "holds R s0 (cache_get32 w addr s)"
  unfolding cache_get32_def
  by (auto intro!: holds_bindO holds_dram_read32 holds_ret holds_abort R cache_freeD(1)[OF cf]
      simp: cache_freeD[OF cf])

lemma holds_cache_get:
  assumes cf: "cache_free R" and R: "R s0 s"
  shows "holds R s0 (cache_get w slot s)"
  unfolding cache_get_def
  by (intro holds_bindO holds_assert_some R)
     (auto intro!: holds_bindO holds_cache_get32 holds_ret cf)

lemma holds_read_csr:
  assumes cf: "cache_free R" and R: "R s0 s"
  shows "holds R s0 (read_csr w old csr s)"
  unfolding read_csr_def
  by (intro holds_bindO holds_cache_set32 holds_cache_set_store holds_cache_set_jump
        holds_cache_write cf R)
     (auto intro!: holds_bindO holds_cache_get holds_ret cf)

lemma holds_write_csr:
  assumes cf: "cache_free R" and R: "R s0 s"
  shows "holds R s0 (write_csr w csr v s)"
  unfolding write_csr_def
  by (intro holds_bindO holds_cache_set32 holds_cache_set_load holds_cache_set_jump
        holds_cache_set holds_cache_write cf R)
     (auto intro!: holds_ret)

lemma holds_write_gpr:
  assumes cf: "cache_free R" and R: "R s0 s"
  shows "holds R s0 (write_gpr w gpr v s)"
  unfolding write_gpr_def
  by (intro holds_bindO holds_cache_set32 holds_cache_set_load holds_cache_set_jump
        holds_cache_set holds_cache_write cf R)
     (auto intro!: holds_ret)

lemma holdsD: "holds R s0 r \<Longrightarrow> r = Some res \<Longrightarrow> R s0 (out_state res)"
  by (simp add: holds_def)

lemma keeps_refl: "keeps f s s" by (simp add: keeps_def)

lemma cache_free_tselect_dirty: "cache_free (keeps tselect_dirty)"
  by (simp add: cache_free_def cursor_free_def keeps_def)

section \<open>Claims\<close>





lemma returned_SomeD: "returned r = Some a \<Longrightarrow> \<exists>s'. r = Some (Ret a s')"
  by (auto simp: returned_def split: option.splits outcome.splits)

lemma final_SomeD: "map_option f (final r) = Some b \<Longrightarrow> r = Some (Ret a s') \<Longrightarrow> f s' = b"
  by (auto simp: final_def)

text \<open>C1, as stated, fails. On the mock target the flag is false; \<^verbatim>\<open>maybe_write_tselect\<close>
  writes tselect through a batch of six scans, returns \<^verbatim>\<open>ERROR_OK\<close> and leaves the flag
  true. With the flag true, \<^verbatim>\<open>maybe_read_tselect\<close> reads tselect back (the value 3),
  returns \<^verbatim>\<open>ERROR_OK\<close> and leaves the flag false.\<close>

theorem tselect_dirty_polarity_counterexample:
  "\<not> tselect_dirty mock_target
   \<and> returned (maybe_write_tselect (mock_dm [0, 0, 0, 0, 0, pack_in 0 0 4]) mock_target)
       = Some ERROR_OK
   \<and> map_option scan_pos
        (final (maybe_write_tselect (mock_dm [0, 0, 0, 0, 0, pack_in 0 0 4]) mock_target))
       = Some 6
   \<and> map_option tselect_dirty
        (final (maybe_write_tselect (mock_dm [0, 0, 0, 0, 0, pack_in 0 0 4]) mock_target))
       = Some True
   \<and> returned (maybe_read_tselect (mock_dm [0, 0, 0, 0, pack_in 0 3 4])
                  (mock_target\<lparr>tselect_dirty := True\<rparr>))
       = Some ERROR_OK
   \<and> map_option tselect
        (final (maybe_read_tselect (mock_dm [0, 0, 0, 0, pack_in 0 3 4])
                  (mock_target\<lparr>tselect_dirty := True\<rparr>)))
       = Some 3
   \<and> map_option tselect_dirty
        (final (maybe_read_tselect (mock_dm [0, 0, 0, 0, pack_in 0 3 4])
                  (mock_target\<lparr>tselect_dirty := True\<rparr>)))
       = Some False"
  by code_simp

text \<open>C1, amended. A call of \<^verbatim>\<open>maybe_write_tselect\<close> that returns \<^verbatim>\<open>ERROR_OK\<close> leaves
  \<open>tselect_dirty\<close> true, and a call of \<^verbatim>\<open>maybe_read_tselect\<close> that returns \<^verbatim>\<open>ERROR_OK\<close>
  leaves it false; a call that returns an error leaves the flag as it was when the CSR
  access was attempted (false for the write, true for the read).\<close>

theorem tselect_dirty_after_access:
  "(maybe_write_tselect w s = Some (Ret rc s') \<longrightarrow>
      (rc = ERROR_OK \<longrightarrow> tselect_dirty s') \<and> (rc \<noteq> ERROR_OK \<longrightarrow> \<not> tselect_dirty s'))
   \<and> (maybe_read_tselect w s = Some (Ret rc s') \<longrightarrow>
      (rc = ERROR_OK \<longrightarrow> \<not> tselect_dirty s') \<and> (rc \<noteq> ERROR_OK \<longrightarrow> tselect_dirty s'))"
proof (intro conjI impI)
  assume a: "maybe_write_tselect w s = Some (Ret rc s')"
  have k: "write_csr w (CSR_TSELECT w) (tselect s) s = Some (Ret r s1)
      \<Longrightarrow> tselect_dirty s1 = tselect_dirty s" for r s1
    using holdsD[OF holds_write_csr[OF cache_free_tselect_dirty keeps_refl]]
    by (fastforce simp: keeps_def)
  from a k show "tselect_dirty s'" if "rc = ERROR_OK"
    using that by (auto simp: maybe_write_tselect_def bindO_def ret_def
        split: if_splits option.splits outcome.splits)
  from a k show "\<not> tselect_dirty s'" if "rc \<noteq> ERROR_OK"
    using that by (auto simp: maybe_write_tselect_def bindO_def ret_def
        split: if_splits option.splits outcome.splits)
next
  assume a: "maybe_read_tselect w s = Some (Ret rc s')"
  have k: "read_csr w (tselect s) (CSR_TSELECT w) s = Some (Ret r s1)
      \<Longrightarrow> tselect_dirty s1 = tselect_dirty s" for r s1
    using holdsD[OF holds_read_csr[OF cache_free_tselect_dirty keeps_refl]]
    by (fastforce simp: keeps_def)
  from a k show "\<not> tselect_dirty s'" if "rc = ERROR_OK"
    using that by (auto simp: maybe_read_tselect_def bindO_def ret_def Let_def
        split: if_splits option.splits outcome.splits prod.splits)
  from a k show "tselect_dirty s'" if "rc \<noteq> ERROR_OK"
    using that by (auto simp: maybe_read_tselect_def bindO_def ret_def Let_def
        split: if_splits option.splits outcome.splits prod.splits)
qed

theorem tselect_dirty_after_access_witness:
  "\<exists>s'. maybe_write_tselect (mock_dm [0, 0, 0, 0, 0, pack_in 0 0 4]) mock_target
          = Some (Ret ERROR_OK s') \<and> tselect_dirty s'"
proof -
  have "returned (maybe_write_tselect (mock_dm [0, 0, 0, 0, 0, pack_in 0 0 4]) mock_target)
      = Some ERROR_OK"
    by code_simp
  then obtain s' where
    r: "maybe_write_tselect (mock_dm [0, 0, 0, 0, 0, pack_in 0 0 4]) mock_target
          = Some (Ret ERROR_OK s')"
    by (blast dest: returned_SomeD)
  with tselect_dirty_after_access[of "mock_dm [0, 0, 0, 0, 0, pack_in 0 0 4]" mock_target
      ERROR_OK s']
  have "tselect_dirty s'" by simp
  with r show ?thesis by blast
qed

section \<open>Proofs: the paths of cache_write\<close>

lemma bindO_RetE:
  assumes "bindO r k = Some (Ret a s')"
  obtains b s1 where "r = Some (Ret b s1)" "k b s1 = Some (Ret a s')"
  using assms by (auto simp: bindO_def split: option.splits outcome.splits)

lemma cursor_free_keeps_dram_cache: "cursor_free (keeps dram_cache)"
  by (simp add: cursor_free_def keeps_def)

lemma cursor_free_keeps_scan_pos_not: "cursor_free (keeps addrbits)"
  by (simp add: cursor_free_def keeps_def)

lemma cache_write_wait_dram_cache:
  "cache_write_wait w b s = Some (Ret rc s') \<Longrightarrow> dram_cache s' = dram_cache s"
  using holdsD[OF holds_cache_write_wait[OF cursor_free_keeps_dram_cache keeps_refl]]
  by (fastforce simp: keeps_def)

lemma cache_clean_shape:
  "i < DRAM_CACHE_SIZE \<Longrightarrow> \<not> dirty (dram_cache (cache_clean s) i)"
  "4 \<le> i \<Longrightarrow> i < DRAM_CACHE_SIZE \<Longrightarrow> \<not> valid (dram_cache (cache_clean s) i)"
  by (simp_all add: cache_clean_def)

lemma cache_write_slow_shape:
  assumes "cache_write_slow w lst run s = Some (Ret rc s')"
  shows "\<exists>s1. dram_cache s' = dram_cache (cache_clean s1)"
  using assms unfolding cache_write_slow_def
  by (auto elim!: bindO_RetE dest: cache_write_wait_dram_cache)

lemma cache_write_fast_shape:
  assumes "cache_write_fast w addr run scans s = Some (Ret ERROR_OK s')"
  shows "dram_cache s' = dram_cache (cache_clean s)
     \<or> (run \<or> addr < CACHE_NO_READ) \<and> scan_pos s' = scan_pos s \<and> addrbits s' = addrbits s
       \<and> (\<exists>l. dram_cache s' = (dram_cache (cache_clean s))
             (unat (scans_get_u32 scans (next_scan scans - 1) DBUS_ADDRESS_START
                      (unat (addrbits s))) := l\<lparr>valid := True\<rparr>) \<and> \<not> dirty l
             \<and> data l = scans_get_u32 scans (next_scan scans - 1) DBUS_DATA_START 32)"
proof -
  have ab: "addrbits (cache_clean s) = addrbits s" by (simp add: cache_clean_def)
  have sp: "scan_pos (cache_clean s) = scan_pos s" by (simp add: cache_clean_def)
  show ?thesis
  proof (cases "run \<or> addr < CACHE_NO_READ")
    case False
    with assms show ?thesis by (simp add: cache_write_fast_def Let_def ret_def)
  next
    case True
    show ?thesis
    proof (cases "scans_get_u32 scans (next_scan scans - 1) (DBUS_DATA_START + 33) 1 \<noteq> 0")
      case i: True
      with True assms have "cache_write_wait w False (increase_interrupt_high_delay (cache_clean s))
          = Some (Ret ERROR_OK s')"
        by (simp add: cache_write_fast_def Let_def)
      from cache_write_wait_dram_cache[OF this] show ?thesis
        by (simp add: increase_interrupt_high_delay_def)
    next
      case i: False
      let ?ra = "unat (scans_get_u32 scans (next_scan scans - 1) DBUS_ADDRESS_START
                      (unat (addrbits s)))"
      let ?l = "(dram_cache (cache_clean s) ?ra)
             \<lparr>data := scans_get_u32 scans (next_scan scans - 1) DBUS_DATA_START 32\<rparr>"
      from True i assms have lt: "?ra < DRAM_CACHE_SIZE"
        by (auto simp: cache_write_fast_def Let_def ret_def abort_def ab split: if_splits)
      with True i assms have s': "s' = (cache_clean s)\<lparr>dram_cache := (dram_cache (cache_clean s))
                    (?ra := (dram_cache (cache_clean s) ?ra)
                       \<lparr>data := scans_get_u32 scans (next_scan scans - 1) DBUS_DATA_START 32,
                        valid := True\<rparr>)\<rparr>"
        by (auto simp: cache_write_fast_def Let_def ret_def abort_def ab split: if_splits)
      have "\<not> dirty ?l" using lt by (simp add: cache_clean_shape)
      moreover have "data ?l = scans_get_u32 scans (next_scan scans - 1) DBUS_DATA_START 32"
        by simp
      moreover have "dram_cache s' = (dram_cache (cache_clean s)) (?ra := ?l\<lparr>valid := True\<rparr>)"
        by (simp add: s')
      ultimately have "\<exists>l. dram_cache s' = (dram_cache (cache_clean s)) (?ra := l\<lparr>valid := True\<rparr>)
           \<and> \<not> dirty l \<and> data l = scans_get_u32 scans (next_scan scans - 1) DBUS_DATA_START 32"
        by blast
      moreover have "scan_pos s' = scan_pos s" "addrbits s' = addrbits s"
        by (simp_all add: s' sp ab)
      ultimately show ?thesis using True by blast
    qed
  qed
qed

lemma scans_add_read32_next:
  "scans_add_read32 s scans a b = Some scans' \<Longrightarrow> next_scan scans' = next_scan scans + 1"
  by (auto simp: scans_add_read32_def Let_def split: if_splits)

lemma cache_write_queue_reads:
  assumes "cache_write_queue w addr run lst s = Some (Ret scans s1)" "run \<or> addr < CACHE_NO_READ"
  shows "2 \<le> next_scan scans"
  using assms unfolding cache_write_queue_def
  by (auto elim!: bindO_RetE simp: assert_some_def ret_def abort_def
      dest!: scans_add_read32_next split: option.splits)

lemma cache_write_queue_addrbits:
  assumes "cache_write_queue w addr run lst s = Some (Ret scans s1)"
  shows "addrbits s1 = addrbits s"
  using holdsD[OF holds_cache_write_queue[OF cursor_free_keeps_scan_pos_not keeps_refl] assms]
  by (simp add: keeps_def)

text \<open>C2, as stated, fails in both directions. Without \<open>run\<close>, a successful
  \<^verbatim>\<open>cache_write\<close> (as \<^verbatim>\<open>riscv_read_memory\<close> issues it, with \<^verbatim>\<open>CACHE_NO_READ\<close>) leaves the
  valid line 5 invalid; with \<open>run\<close>, a successful \<^verbatim>\<open>cache_write\<close> that reads address 5
  leaves line 5 valid, holding the value read.\<close>

theorem cache_write_invalidates_iff_run_counterexample:
  "line_valid 5 mock_cached
   \<and> returned (cache_write (mock_dm []) CACHE_NO_READ False mock_cached) = Some ERROR_OK
   \<and> map_option (line_valid 5) (final (cache_write (mock_dm []) CACHE_NO_READ False mock_cached))
       = Some False
   \<and> returned (cache_write (mock_dm [0, 0, pack_in 0 7 5]) 5 True mock_cached) = Some ERROR_OK
   \<and> map_option (line_valid 5)
        (final (cache_write (mock_dm [0, 0, pack_in 0 7 5]) 5 True mock_cached))
       = Some True"
  by code_simp

text \<open>C2, amended. After a \<^verbatim>\<open>cache_write\<close> that returns \<^verbatim>\<open>ERROR_OK\<close> no line of the cache
  is dirty, and every line with index at least 4 is invalid, whatever \<open>run\<close> is, with one
  exception: when the two reads were queued, the line at the address echoed by the last
  scan of the batch may be valid, and then it holds the low 32 data bits of that scan.\<close>

theorem cache_write_cleans:
  assumes "cache_write w addr run s = Some (Ret ERROR_OK s')"
  shows "(\<forall>i<DRAM_CACHE_SIZE. \<not> dirty (dram_cache s' i))
       \<and> (\<forall>i. 4 \<le> i \<and> i < DRAM_CACHE_SIZE \<and> valid (dram_cache s' i) \<longrightarrow>
             (run \<or> addr < CACHE_NO_READ) \<and> 0 < scan_pos s'
             \<and> i = unat (buf_get_u32 (scan_in w (scan_pos s' - 1)) DBUS_ADDRESS_START
                          (unat (addrbits s)))
             \<and> data (dram_cache s' i)
                 = buf_get_u32 (scan_in w (scan_pos s' - 1)) DBUS_DATA_START 32)"
proof -
  define lst where "lst = (if filter (\<lambda>i. dirty (dram_cache s i)) [0..<DRAM_CACHE_SIZE] = []
      then DRAM_CACHE_SIZE else last (filter (\<lambda>i. dirty (dram_cache s i)) [0..<DRAM_CACHE_SIZE]))"
  from assms obtain scans s1 where
    q: "cache_write_queue w addr run lst s = Some (Ret scans s1)" and
    rest: "(case scans_execute w scans s1 of
             ((retval, scans), s2) \<Rightarrow>
               if retval \<noteq> ERROR_OK then ret retval s2
               else
                 (case cache_write_status
                         (map (\<lambda>i. scans_get_u32 scans i DBUS_OP_START DBUS_OP_SIZE)
                            [0..<next_scan scans]) 0 of
                    None \<Rightarrow> ret ERROR_FAIL s2
                  | Some errors \<Rightarrow>
                      if errors \<noteq> 0 then cache_write_slow w lst run s2
                      else cache_write_fast w addr run scans s2)) = Some (Ret ERROR_OK s')"
    unfolding cache_write_def Let_def lst_def[symmetric]
    by (auto elim!: bindO_RetE simp: abort_def split: if_splits)
  define n where "n = next_scan scans"
  define scans2 where "scans2 = scans\<lparr>inp := map (\<lambda>i. scan_in w (scan_pos s1 + i)) [0..<n]\<rparr>"
  define s2 where "s2 = s1\<lparr>exec_pos := exec_pos s1 + 1, scan_pos := scan_pos s1 + n\<rparr>"
  from rest have ok: "queue_rc w (exec_pos s1) = ERROR_OK"
    by (auto simp: scans_execute_def jtag_execute_queue_def Let_def ret_def split: if_splits)
  with rest have paths: "(\<exists>e. cache_write_slow w lst run s2 = Some (Ret ERROR_OK s'))
      \<or> cache_write_fast w addr run scans2 s2 = Some (Ret ERROR_OK s')"
    by (auto simp: scans_execute_def jtag_execute_queue_def Let_def ret_def n_def scans2_def s2_def
        ERROR_OK_def ERROR_FAIL_def split: if_splits option.splits)
  have shape: "dram_cache s' = dram_cache (cache_clean s2) \<or> (\<exists>t. dram_cache s' = dram_cache (cache_clean t))
     \<or> (run \<or> addr < CACHE_NO_READ) \<and> scan_pos s' = scan_pos s2 \<and> addrbits s' = addrbits s2
       \<and> (\<exists>l. dram_cache s' = (dram_cache (cache_clean s2))
             (unat (scans_get_u32 scans2 (next_scan scans2 - 1) DBUS_ADDRESS_START
                      (unat (addrbits s2))) := l\<lparr>valid := True\<rparr>) \<and> \<not> dirty l
             \<and> data l = scans_get_u32 scans2 (next_scan scans2 - 1) DBUS_DATA_START 32)"
  proof -
    from paths show ?thesis
    proof
      assume "\<exists>e::int. cache_write_slow w lst run s2 = Some (Ret ERROR_OK s')"
      then have "cache_write_slow w lst run s2 = Some (Ret ERROR_OK s')" by simp
      from cache_write_slow_shape[OF this] show ?thesis by blast
    next
      assume "cache_write_fast w addr run scans2 s2 = Some (Ret ERROR_OK s')"
      from cache_write_fast_shape[OF this] show ?thesis by blast
    qed
  qed
  have ab: "addrbits s2 = addrbits s"
    using cache_write_queue_addrbits[OF q] by (simp add: s2_def)
  show ?thesis
  proof (cases "\<exists>t. dram_cache s' = dram_cache (cache_clean t)")
    case True
    then show ?thesis by (auto simp: cache_clean_shape)
  next
    case False
    with shape obtain l where rd: "run \<or> addr < CACHE_NO_READ" "scan_pos s' = scan_pos s2"
      and dc: "dram_cache s' = (dram_cache (cache_clean s2))
             (unat (scans_get_u32 scans2 (next_scan scans2 - 1) DBUS_ADDRESS_START
                      (unat (addrbits s2))) := l\<lparr>valid := True\<rparr>)" and l: "\<not> dirty l"
      and dl: "data l = scans_get_u32 scans2 (next_scan scans2 - 1) DBUS_DATA_START 32"
      by blast
    from cache_write_queue_reads[OF q rd(1)] have n2: "2 \<le> n" by (simp add: n_def)
    have last_in: "inp scans2 ! (next_scan scans2 - 1) = scan_in w (scan_pos s' - 1)"
      using n2 by (simp add: scans2_def n_def[symmetric] rd(2) s2_def)
    have pos: "0 < scan_pos s'" using n2 by (simp add: rd(2) s2_def)
    show ?thesis
      using dc l dl rd(1) pos last_in
      by (auto simp: cache_clean_shape scans_get_u32_def ab split: if_splits)
  qed
qed

theorem cache_write_cleans_witness:
  "line_dirty 0 mock_cached \<and> line_valid 5 mock_cached
   \<and> (\<exists>s'. cache_write (mock_dm [0, 0, pack_in 0 7 4]) 4 True mock_cached
          = Some (Ret ERROR_OK s')
        \<and> \<not> line_dirty 0 s' \<and> \<not> line_valid 5 s'
        \<and> line_valid 4 s' \<and> data (dram_cache s' 4) = 7)"
proof -
  let ?w = "mock_dm [0, 0, pack_in 0 7 4]"
  have d: "line_dirty 0 mock_cached" "line_valid 5 mock_cached" by code_simp+
  have "returned (cache_write ?w 4 True mock_cached) = Some ERROR_OK"
    by code_simp
  then obtain s' where
    r: "cache_write ?w 4 True mock_cached = Some (Ret ERROR_OK s')"
    by (blast dest: returned_SomeD)
  have f: "map_option scan_pos (final (cache_write ?w 4 True mock_cached)) = Some 3"
    by code_simp
  have sp: "scan_pos s' = 3" using final_SomeD[OF f r] .
  have g: "map_option (line_valid 4) (final (cache_write ?w 4 True mock_cached)) = Some True"
    by code_simp
  have v4: "valid (dram_cache s' 4)" using final_SomeD[OF g r] by (simp add: line_valid_def)
  have a: "unat (buf_get_u32 (scan_in ?w 2) DBUS_ADDRESS_START
      (unat (addrbits mock_cached))) = 4"
    by code_simp
  have b: "buf_get_u32 (scan_in ?w 2) DBUS_DATA_START 32 = 7"
    by code_simp
  note c = cache_write_cleans[OF r]
  from c have "\<not> dirty (dram_cache s' 0)" by (simp add: DRAM_CACHE_SIZE_def)
  moreover from c[THEN conjunct2, rule_format, of 5] sp a have "\<not> valid (dram_cache s' 5)"
    by (auto simp: DRAM_CACHE_SIZE_def)
  moreover from c[THEN conjunct2, rule_format, of 4] sp v4 b have "data (dram_cache s' 4) = 7"
    by (auto simp: DRAM_CACHE_SIZE_def)
  ultimately have "\<not> line_dirty 0 s' \<and> \<not> line_valid 5 s' \<and> line_valid 4 s'
      \<and> data (dram_cache s' 4) = 7"
    using v4 by (simp add: line_dirty_def line_valid_def)
  with d r show ?thesis by blast
qed

section \<open>Proofs: register access\<close>

lemma holds_maybe_write_tselect:
  assumes cf: "cache_free R" and td: "\<And>s0 s g. R s0 (tselect_dirty_update g s) = R s0 s"
    and R: "R s0 s"
  shows "holds R s0 (maybe_write_tselect w s)"
  unfolding maybe_write_tselect_def
  by (auto intro!: holds_bindO holds_write_csr holds_ret cf R simp: td)


lemma maybe_write_tselect_pc_view:
  assumes "maybe_write_tselect w s = Some (Ret rc s')"
  shows "dpc s' = dpc s" "reg_value s' = reg_value s" "xlen s' = xlen s"
proof -
  have "holds (keeps pc_view) s (maybe_write_tselect w s)"
    by (rule holds_maybe_write_tselect)
       (simp_all add: cache_free_def cursor_free_def keeps_def pc_view_def)
  from holdsD[OF this assms] show "dpc s' = dpc s" "reg_value s' = reg_value s" "xlen s' = xlen s"
    by (simp_all add: keeps_def pc_view_def)
qed

lemma buf_set_u32_low:
  "take_bit 32 (buf_set_u32 b 0 32 (ucast (v :: u64))) = take_bit 32 v"
  "drop_bit 32 (buf_set_u32 b 0 32 (ucast (v :: u64))) = drop_bit 32 b"
  unfolding buf_set_u32_def buf_set_u64_def
  by (rule bit_eqI; auto simp: bit_simps dest: bit_imp_le_length)+

text \<open>C9. On a target with \<open>xlen = 64\<close>, \<^verbatim>\<open>register_write\<close> of the PC stores all 64 bits
  of the value in the \<open>dpc\<close> shadow, and a following \<^verbatim>\<open>register_get\<close> of the PC puts only
  the low 32 bits of the shadow in the register's value buffer: bits 32 and up of the
  buffer keep what they held before, so the upper half of the value is lost.\<close>

theorem pc_get_keeps_low_half_only:
  assumes "xlen s = 64"
    and "register_write w REG_PC v s = Some (Ret rc1 s1)"
    and "register_get w REG_PC s1 = Some (Ret rc2 s2)"
  shows "rc1 = ERROR_OK \<and> rc2 = ERROR_OK \<and> xlen s2 = 64 \<and> dpc s1 = v
       \<and> reg_value s2 REG_PC = buf_set_u32 (reg_value s REG_PC) 0 32 (ucast v)
       \<and> take_bit 32 (reg_value s2 REG_PC) = take_bit 32 v
       \<and> drop_bit 32 (reg_value s2 REG_PC) = drop_bit 32 (reg_value s REG_PC)"
proof -
  from assms(2) obtain r sa where a: "maybe_write_tselect w s = Some (Ret r sa)"
    and s1: "s1 = sa\<lparr>dpc := v\<rparr>" and rc1: "rc1 = ERROR_OK"
    by (auto simp: register_write_def bindO_def ret_def REG_PC_def S0_def S1_def REG_XPR31_def
        split: option.splits outcome.splits)
  from assms(3) obtain r' sb where b: "maybe_write_tselect w s1 = Some (Ret r' sb)"
    and s2: "s2 = sb\<lparr>reg_value := (reg_value sb)
            (REG_PC := buf_set_u32 (reg_value sb REG_PC) 0 32 (ucast (dpc sb)))\<rparr>"
    and rc2: "rc2 = ERROR_OK"
    by (auto simp: register_get_def bindO_def ret_def REG_PC_def REG_XPR31_def
        split: option.splits outcome.splits)
  note va = maybe_write_tselect_pc_view[OF a]
  note vb = maybe_write_tselect_pc_view[OF b]
  have rv: "reg_value s2 REG_PC = buf_set_u32 (reg_value s REG_PC) 0 32 (ucast v)"
    by (simp add: s2 vb s1 va)
  show ?thesis
    using rc1 rc2 rv assms(1) by (simp add: buf_set_u32_low s1 s2 vb va)
qed

theorem pc_get_keeps_low_half_only_witness:
  "xlen mock_target64 = 64
   \<and> (\<exists>s1 s2. register_write (mock_dm []) REG_PC 0x1234567890ABCDEF mock_target64
                = Some (Ret ERROR_OK s1)
            \<and> register_get (mock_dm []) REG_PC s1 = Some (Ret ERROR_OK s2)
            \<and> dpc s1 = 0x1234567890ABCDEF
            \<and> reg_value s2 REG_PC = 0x90ABCDEF)"
proof -
  let ?s1 = "mock_target64\<lparr>dpc := 0x1234567890ABCDEF\<rparr>"
  let ?s2 = "?s1\<lparr>reg_value := (reg_value ?s1)
      (REG_PC := buf_set_u32 (reg_value ?s1 REG_PC) 0 32 (ucast (dpc ?s1)))\<rparr>"
  have x: "xlen mock_target64 = 64" by (simp add: mock_target64_def mock_target_def)
  have w: "register_write (mock_dm []) REG_PC 0x1234567890ABCDEF mock_target64
      = Some (Ret ERROR_OK ?s1)"
    by (simp add: register_write_def maybe_write_tselect_def bindO_def ret_def
        mock_target64_def mock_target_def REG_PC_def S0_def S1_def REG_XPR31_def)
  have g: "register_get (mock_dm []) REG_PC ?s1 = Some (Ret ERROR_OK ?s2)"
    by (simp add: register_get_def maybe_write_tselect_def bindO_def ret_def
        mock_target64_def mock_target_def REG_PC_def REG_XPR31_def)
  have "reg_value mock_target64 REG_PC = 0" by (simp add: mock_target64_def mock_target_def)
  with pc_get_keeps_low_half_only[OF x w g]
  have "dpc ?s1 = 0x1234567890ABCDEF \<and> reg_value ?s2 REG_PC = 0x90ABCDEF"
    by (simp add: buf_set_u32_def buf_set_u64_def)
  with x w g show ?thesis by blast
qed

section \<open>Memory read: output on failure\<close>

text \<open>C10. A read of two bytes from the mock target into a zeroed buffer: the staging
  \<^verbatim>\<open>cache_write\<close> takes four scans, the read batch five. The last scan delivers the
  exception word 5, so the call returns \<^verbatim>\<open>ERROR_FAIL\<close>; both bytes of the caller's buffer
  have been overwritten by then with the data of the third and fourth scan of the batch,
  and are not restored.\<close>

theorem read_memory_failure_leaves_data_in_buffer:
  "read_rc (riscv_read_memory
      (mock_dm [0, 0, 0, 0, 0, 0, pack_in 0 0x11 4, pack_in 0 0x22 15, pack_in 0 5 15])
      0x1000 1 2 (\<lambda>_. 0) mock_target) = Some ERROR_FAIL
   \<and> read_byte 0 (riscv_read_memory
      (mock_dm [0, 0, 0, 0, 0, 0, pack_in 0 0x11 4, pack_in 0 0x22 15, pack_in 0 5 15])
      0x1000 1 2 (\<lambda>_. 0) mock_target) = Some 0x11
   \<and> read_byte 1 (riscv_read_memory
      (mock_dm [0, 0, 0, 0, 0, 0, pack_in 0 0x11 4, pack_in 0 0x22 15, pack_in 0 5 15])
      0x1000 1 2 (\<lambda>_. 0) mock_target) = Some 0x22"
  by code_simp

section \<open>Proofs: runs on a mock Debug Module\<close>











section \<open>Proofs: triggers\<close>





lemma uninitialised_ids: "trigger_unique_id (snd (uninitialised w s)) = trigger_unique_id s"
  by (simp add: uninitialised_def)








section \<open>Proofs: when the loops return\<close>

lemma scan_address_cong: "addrbits s1 = addrbits s \<Longrightarrow> scan_address w s1 = scan_address w s"
  by (rule ext) (simp add: scan_address_def)























end
